theory Spec2Isabelle
  imports Complex_Main
begin

section \<open>Scalars\<close>

text \<open>
  \<^verbatim>\<open>Scalar\<close> (double) and \<^verbatim>\<open>GpuScalar\<close> (float) are modelled by \<^typ>\<open>real\<close>:
  the formulas of the sources are read as formulas over the reals, literals are the
  numbers they denote, and rounding is left out.  \<^verbatim>\<open>GpuIndex\<close> is modelled by
  \<^typ>\<open>int\<close>; sizes are \<^typ>\<open>nat\<close>.
\<close>

type_synonym Scalar = real
type_synonym GpuScalar = real
type_synonym GpuIndex = int

section \<open>Lame coefficients (pba/physics/HyperElasticity)\<close>

text \<open>
  \<^verbatim>\<open>std::pair<Scalar, Scalar> LameCoefficients(Scalar Y, Scalar nu)\<close>:
  \<^verbatim>\<open>mu = Y / (2. * (1. + nu))\<close>, \<^verbatim>\<open>lambda = Y * nu / ((1. + nu) * (1. - 2. * nu))\<close>,
  returned as \<^verbatim>\<open>{mu, lambda}\<close>.
\<close>

definition LameCoefficients :: "Scalar \<Rightarrow> Scalar \<Rightarrow> Scalar \<times> Scalar" where
  "LameCoefficients Y nu =
     (let mu = Y / (2 * (1 + nu));
          lambda = Y * nu / ((1 + nu) * (1 - 2 * nu))
      in (mu, lambda))"

text \<open>
  Modelled from the spec: the vectorised overload
  \<^verbatim>\<open>LameCoefficients(VectorX, VectorX)\<close> is declared in
  \<^verbatim>\<open>pba/physics/HyperElasticity.h\<close>, which is not among the sources; only its call in
  the test \<^verbatim>\<open>[physics] HyperElasticity\<close> is.  It is taken to apply the scalar formulas
  coefficient by coefficient (the glossary: the two Lame parameters are derived from
  Young's modulus and Poisson's ratio), over as many coefficients as both inputs have.
\<close>

definition LameCoefficientsV :: "Scalar list \<Rightarrow> Scalar list \<Rightarrow> Scalar list \<times> Scalar list" where
  "LameCoefficientsV Ys nus =
     (map (\<lambda>(Y, nu). fst (LameCoefficients Y nu)) (zip Ys nus),
      map (\<lambda>(Y, nu). snd (LameCoefficients Y nu)) (zip Ys nus))"

text \<open>\<^verbatim>\<open>VectorX::Constant(n, c)\<close>: the vector of \<open>n\<close> coefficients all equal to \<open>c\<close>.\<close>

definition Constant :: "nat \<Rightarrow> Scalar \<Rightarrow> Scalar list" where
  "Constant n c = replicate n c"

section \<open>Small vectors and device buffers\<close>

text \<open>
  \<^verbatim>\<open>SMatrix<GpuScalar, 3, 1>\<close>, the value that \<^verbatim>\<open>FromBuffers<3, 1>\<close> returns and the
  kernels of \<^verbatim>\<open>pbat/sim/vbd/Kernels.h\<close> compute with.
\<close>

datatype vec3 = Vec3 GpuScalar GpuScalar GpuScalar

instantiation vec3 :: "{zero, plus, minus}"
begin

definition zero_vec3 :: vec3 where
  "zero_vec3 = Vec3 0 0 0"

fun plus_vec3 :: "vec3 \<Rightarrow> vec3 \<Rightarrow> vec3" where
  "plus_vec3 (Vec3 a b c) (Vec3 a' b' c') = Vec3 (a + a') (b + b') (c + c')"

fun minus_vec3 :: "vec3 \<Rightarrow> vec3 \<Rightarrow> vec3" where
  "minus_vec3 (Vec3 a b c) (Vec3 a' b' c') = Vec3 (a - a') (b - b') (c - c')"

instance ..

end

text \<open>A scalar times a vector, and a vector over a scalar.\<close>

fun smul :: "GpuScalar \<Rightarrow> vec3 \<Rightarrow> vec3" where
  "smul k (Vec3 a b c) = Vec3 (k * a) (k * b) (k * c)"

fun sdiv :: "vec3 \<Rightarrow> GpuScalar \<Rightarrow> vec3" where
  "sdiv (Vec3 a b c) k = Vec3 (a / k) (b / k) (c / k)"

text \<open>
  \<^verbatim>\<open>common::Buffer<T>\<close> is an array on the device; \<^verbatim>\<open>common::Buffer<GpuScalar, 3>\<close>
  is three arrays of one size, one per dimension (\<^verbatim>\<open>Step\<close> copies \<^verbatim>\<open>X.x[d]\<close> dimension by
  dimension).  Both classes are declared in \<^verbatim>\<open>pbat/gpu/common/Buffer.cuh\<close>, which is not
  among the sources; what is used of them is their size, their contents, \<^verbatim>\<open>Resize\<close> and
  \<^verbatim>\<open>SetConstant\<close>.  A new buffer of \<open>n\<close> elements is taken to hold zeros.
\<close>

type_synonym 'a Buffer = "'a list"
type_synonym Buffer3 = "GpuScalar list \<times> GpuScalar list \<times> GpuScalar list"

definition Buffer_new :: "nat \<Rightarrow> 'a::zero Buffer" where
  "Buffer_new n = replicate n 0"

definition Buffer3_new :: "nat \<Rightarrow> Buffer3" where
  "Buffer3_new n = (replicate n 0, replicate n 0, replicate n 0)"

fun Size3 :: "Buffer3 \<Rightarrow> nat" where
  "Size3 (a, b, c) = length a"

text \<open>Every dimension of the buffer has \<open>n\<close> elements.\<close>

fun HasSize3 :: "nat \<Rightarrow> Buffer3 \<Rightarrow> bool" where
  "HasSize3 n (a, b, c) = (length a = n \<and> length b = n \<and> length c = n)"

definition SetConstant :: "'a \<Rightarrow> 'a Buffer \<Rightarrow> 'a Buffer" where
  "SetConstant v buf = replicate (length buf) v"

fun SetConstant3 :: "GpuScalar \<Rightarrow> Buffer3 \<Rightarrow> Buffer3" where
  "SetConstant3 v (a, b, c) = (SetConstant v a, SetConstant v b, SetConstant v c)"

text \<open>\<^verbatim>\<open>Resize(n)\<close>: the first \<open>n\<close> elements are kept, new ones are zero.\<close>

definition Resize :: "nat \<Rightarrow> 'a::zero Buffer \<Rightarrow> 'a Buffer" where
  "Resize n buf = take n buf @ replicate (n - length buf) 0"

text \<open>
  \<^verbatim>\<open>cuda::memory::async::copy(dst, src, n * sizeof(GpuScalar))\<close> and
  \<^verbatim>\<open>thrust::copy(first, last, dst)\<close>: the first \<open>n\<close> elements of \<open>dst\<close> become those of
  \<open>src\<close>.
\<close>

definition copy_n :: "'a list \<Rightarrow> 'a list \<Rightarrow> nat \<Rightarrow> 'a list" where
  "copy_n dst src n = take n src @ drop n dst"

text \<open>
  \<^verbatim>\<open>FromBuffers<3, 1>(buf, i)\<close> and \<^verbatim>\<open>ToBuffers(y, buf, i)\<close> are declared in
  \<^verbatim>\<open>pbat/math/linalg/mini\<close>, which is not among the sources.  From their uses in
  \<^verbatim>\<open>Step\<close>: the first reads the three coordinates of element \<open>i\<close>, one from each of the
  three arrays, into a vector held by value
  (\<^verbatim>\<open>auto y = InertialTarget(FromBuffers<3, 1>(xt, i), ...)\<close>), the second stores a vector
  into element \<open>i\<close> (\<^verbatim>\<open>ToBuffers(y, xtilde, i)\<close>): a result reaches a buffer only through
  \<^verbatim>\<open>ToBuffers\<close>.
\<close>

fun FromBuffers :: "Buffer3 \<Rightarrow> nat \<Rightarrow> vec3" where
  "FromBuffers (a, b, c) i = Vec3 (a ! i) (b ! i) (c ! i)"

fun ToBuffers :: "vec3 \<Rightarrow> Buffer3 \<Rightarrow> nat \<Rightarrow> Buffer3" where
  "ToBuffers (Vec3 x y z) (a, b, c) i = (a[i := x], b[i := y], c[i := z])"

text \<open>
  \<^verbatim>\<open>thrust::async::for_each(policy, counting_iterator(0), counting_iterator(n), f)\<close>
  where \<open>f\<close> computes a vector for index \<open>i\<close> from buffers it only reads and stores it
  into element \<open>i\<close> of one output buffer.
\<close>

definition for_each_store :: "nat \<Rightarrow> (nat \<Rightarrow> vec3) \<Rightarrow> Buffer3 \<Rightarrow> Buffer3" where
  "for_each_store n f out = fold (\<lambda>i buf. ToBuffers (f i) buf i) [0..<n] out"

section \<open>The kernels of pbat/sim/vbd/Kernels.h\<close>

text \<open>
  \<^verbatim>\<open>EInitializationStrategy\<close> is declared outside the sources, which name one
  enumerator, \<^verbatim>\<open>AdaptiveVbd\<close>; the others are numbered.
\<close>

datatype EInitializationStrategy = AdaptiveVbd | OtherStrategy nat

text \<open>
  Modelled from the spec: \<^verbatim>\<open>ChebyshevOmega(k, rho2, omega)\<close> is defined in
  \<^verbatim>\<open>pbat/sim/vbd/Kernels.h\<close>, which is not among the sources.  The spec (4.3, 4.5): a
  stateless function of \<open>(k, rho^2, previous omega)\<close>; \<open>omega = 1\<close> for \<open>k == 0\<close>,
  \<open>omega = 2/(2 - rho^2)\<close> for \<open>k == 1\<close>, \<open>omega = 4/(4 - rho^2 * omega)\<close> otherwise.
\<close>

definition ChebyshevOmega :: "int \<Rightarrow> GpuScalar \<Rightarrow> GpuScalar \<Rightarrow> GpuScalar" where
  "ChebyshevOmega k rho2 omega =
     (if k = 0 then 1 else if k = 1 then 2 / (2 - rho2) else 4 / (4 - rho2 * omega))"

text \<open>
  Modelled from the spec: \<^verbatim>\<open>ChebyshevUpdate(k, omega, xkm2, xkm1, xk)\<close> is defined in
  \<^verbatim>\<open>pbat/sim/vbd/Kernels.h\<close>, which is not among the sources.  The spec (4.3): for
  \<open>k < 2\<close>, pass-through (store into history only); for \<open>k >= 2\<close>,
  \<open>x_k := omega*(x_k - x_{k-2}) + x_{k-2}\<close>, then roll the two-entry history
  (\<open>x_{k-2} <- x_{k-1}\<close>, \<open>x_{k-1} <- x_k\<close>).  It updates its three vector arguments; the
  model returns their new values \<open>(xkm2, xkm1, xk)\<close>.
\<close>

definition ChebyshevUpdate :: "int \<Rightarrow> GpuScalar \<Rightarrow> vec3 \<Rightarrow> vec3 \<Rightarrow> vec3 \<Rightarrow> vec3 \<times> vec3 \<times> vec3" where
  "ChebyshevUpdate k omega xkm2 xkm1 xk =
     (let xk' = (if k \<ge> 2 then smul omega (xk - xkm2) + xkm2 else xk)
      in (xkm1, xk', xk'))"

text \<open>
  Modelled from the spec: \<^verbatim>\<open>InertialTarget(xt, vt, aext, dt, dt2)\<close> is defined in
  \<^verbatim>\<open>pbat/sim/vbd/Kernels.h\<close>, which is not among the sources.  The spec (4.2, step 2):
  \<open>xtilde = xt + sdt*v + sdt^2*aext\<close>.
\<close>

definition InertialTarget :: "vec3 \<Rightarrow> vec3 \<Rightarrow> vec3 \<Rightarrow> GpuScalar \<Rightarrow> GpuScalar \<Rightarrow> vec3" where
  "InertialTarget xt vt aext dt dt2 = xt + smul dt vt + smul dt2 aext"

text \<open>
  Modelled from the spec: \<^verbatim>\<open>IntegrateVelocity(xt, x, dt)\<close> is defined in
  \<^verbatim>\<open>pbat/sim/vbd/Kernels.h\<close>, which is not among the sources.  The spec (4.2, step 5):
  \<open>v = (x_new - xt) / sdt\<close>.
\<close>

definition IntegrateVelocity :: "vec3 \<Rightarrow> vec3 \<Rightarrow> GpuScalar \<Rightarrow> vec3" where
  "IntegrateVelocity xt x dt = sdiv (x - xt) dt"

section \<open>The integrator's state (VbdImpl)\<close>

text \<open>
  What \<^verbatim>\<open>Step\<close> enqueues on the stream \<^verbatim>\<open>mStream\<close>, in order: the copies of one
  dimension of a buffer, the \<^verbatim>\<open>for_each\<close> launches (the Chebyshev one with the \<open>k\<close> and
  \<open>omega\<close> its lambda captures) and the launches of \<^verbatim>\<open>kernels::MinimizeBackwardEuler\<close>
  (with the partition it is given).  The operations of one stream run in the order they
  are enqueued, so the model applies each one to the buffers when it is enqueued and
  keeps the list of operations in \<open>mStream\<close>.
\<close>

datatype stream_op =
    CopyPositionsAtT nat
  | ForEachInertialTarget
  | ForEachInitialPositionsForSolve
  | LaunchMinimizeBackwardEuler "GpuIndex list"
  | ForEachChebyshevUpdate int GpuScalar
  | CopyVelocitiesAtT nat
  | ForEachIntegrateVelocity

text \<open>
  The members of \<^verbatim>\<open>VbdImpl\<close>.  \<open>X_x\<close> is \<^verbatim>\<open>X.x\<close>, the positions; \<open>V_inds\<close>,
  \<open>F_inds\<close> and \<open>T_inds\<close> are the index matrices of the vertices, triangles and
  tetrahedra, a list of columns each.
\<close>

record VbdImpl =
  X_x :: Buffer3
  V_inds :: "GpuIndex list list"
  F_inds :: "GpuIndex list list"
  T_inds :: "GpuIndex list list"
  mPositionsAtT :: Buffer3
  mInertialTargetPositions :: Buffer3
  mChebyshevPositionsM2 :: Buffer3
  mChebyshevPositionsM1 :: Buffer3
  mVelocitiesAtT :: Buffer3
  mVelocities :: Buffer3
  mExternalAcceleration :: Buffer3
  mMass :: "GpuScalar Buffer"
  mQuadratureWeights :: "GpuScalar Buffer"
  mShapeFunctionGradients :: "GpuScalar Buffer"
  mLameCoefficients :: "GpuScalar Buffer"
  mDetHZero :: GpuScalar
  mVertexTetrahedronPrefix :: "GpuIndex Buffer"
  mVertexTetrahedronNeighbours :: "GpuIndex Buffer"
  mVertexTetrahedronLocalVertexIndices :: "GpuIndex Buffer"
  mRayleighDamping :: GpuScalar
  mCollisionPenalty :: GpuScalar
  mMaxCollidingTrianglesPerVertex :: GpuIndex
  mCollidingTriangles :: "GpuIndex Buffer"
  mCollidingTriangleCount :: "GpuIndex Buffer"
  mPartitions :: "GpuIndex Buffer list"
  mInitializationStrategy :: EInitializationStrategy
  mGpuThreadBlockSize :: GpuIndex
  mStream :: "stream_op list"

text \<open>\<^verbatim>\<open>std::invalid_argument(what)\<close>.\<close>

datatype error = invalid_argument string

text \<open>
  A member function returns the object as the call leaves it and the exception it
  throws, if any.
\<close>

type_synonym 'a outcome = "'a \<times> error option"

subsection \<open>Construction\<close>

text \<open>
  \<^verbatim>\<open>PointsImpl X(Xin)\<close>: the positions buffer holds the columns of the \<open>3 x N\<close> matrix
  \<open>Xin\<close> (a list of columns here), one array per row.
\<close>

fun c0 :: "vec3 \<Rightarrow> GpuScalar" where "c0 (Vec3 a b c) = a"
fun c1 :: "vec3 \<Rightarrow> GpuScalar" where "c1 (Vec3 a b c) = b"
fun c2 :: "vec3 \<Rightarrow> GpuScalar" where "c2 (Vec3 a b c) = c"

definition PointsImpl :: "vec3 list \<Rightarrow> Buffer3" where
  "PointsImpl Xin = (map c0 Xin, map c1 Xin, map c2 Xin)"

text \<open>The member initialisers of the constructor, with \<open>Xin.cols()\<close> and \<open>Tin.cols()\<close>
  the numbers of columns.\<close>

definition VbdImpl_members ::
  "vec3 list \<Rightarrow> GpuIndex list list \<Rightarrow> GpuIndex list list \<Rightarrow> GpuIndex list list \<Rightarrow> VbdImpl" where
  "VbdImpl_members Xin Vin Fin Tin =
     \<lparr> X_x = PointsImpl Xin,
       V_inds = Vin,
       F_inds = Fin,
       T_inds = Tin,
       mPositionsAtT = Buffer3_new (length Xin),
       mInertialTargetPositions = Buffer3_new (length Xin),
       mChebyshevPositionsM2 = Buffer3_new (length Xin),
       mChebyshevPositionsM1 = Buffer3_new (length Xin),
       mVelocitiesAtT = Buffer3_new (length Xin),
       mVelocities = Buffer3_new (length Xin),
       mExternalAcceleration = Buffer3_new (length Xin),
       mMass = Buffer_new (length Xin),
       mQuadratureWeights = Buffer_new (length Tin),
       mShapeFunctionGradients = Buffer_new (length Tin * 4 * 3),
       mLameCoefficients = Buffer_new (2 * length Tin),
       mDetHZero = 1 / 10 ^ 10,
       mVertexTetrahedronPrefix = Buffer_new (length Xin + 1),
       mVertexTetrahedronNeighbours = Buffer_new 0,
       mVertexTetrahedronLocalVertexIndices = Buffer_new 0,
       mRayleighDamping = 0,
       mCollisionPenalty = 1000,
       mMaxCollidingTrianglesPerVertex = 8,
       mCollidingTriangles = Buffer_new (8 * length Xin),
       mCollidingTriangleCount = Buffer_new (length Xin),
       mPartitions = [],
       mInitializationStrategy = AdaptiveVbd,
       mGpuThreadBlockSize = 64,
       mStream = [] \<rparr>"

text \<open>The constructor: the member initialisers, then its body.\<close>

definition VbdImpl_ctor ::
  "vec3 list \<Rightarrow> GpuIndex list list \<Rightarrow> GpuIndex list list \<Rightarrow> GpuIndex list list \<Rightarrow> VbdImpl" where
  "VbdImpl_ctor Xin Vin Fin Tin =
     (let s0 = VbdImpl_members Xin Vin Fin Tin;
          s1 = s0\<lparr>mPositionsAtT := X_x s0\<rparr>;
          s2 = s1\<lparr>mVelocitiesAtT := SetConstant3 0 (mVelocitiesAtT s1)\<rparr>;
          s3 = s2\<lparr>mVelocities := SetConstant3 0 (mVelocities s2)\<rparr>;
          s4 = s3\<lparr>mExternalAcceleration := SetConstant3 0 (mExternalAcceleration s3)\<rparr>;
          s5 = s4\<lparr>mMass := SetConstant 1000 (mMass s4)\<rparr>
      in s5)"

text \<open>\<^verbatim>\<open>X.NumberOfPoints()\<close>.\<close>

definition NumberOfPoints :: "VbdImpl \<Rightarrow> nat" where
  "NumberOfPoints s = Size3 (X_x s)"

subsection \<open>Step\<close>

text \<open>
  \<^verbatim>\<open>bool const bUseChebyshevAcceleration = rho > GpuScalar{0} and rho < GpuScalar{1}\<close>.
\<close>

definition bUseChebyshevAcceleration :: "GpuScalar \<Rightarrow> bool" where
  "bUseChebyshevAcceleration rho = (rho > 0 \<and> rho < 1)"

text \<open>
  "Store previous positions": for each dimension \<open>d\<close>, \<^verbatim>\<open>X.x.Size()\<close> scalars are copied
  from \<^verbatim>\<open>X.x[d]\<close> to \<^verbatim>\<open>mPositionsAtT[d]\<close>.
\<close>

definition StorePreviousPositions :: "VbdImpl \<Rightarrow> VbdImpl" where
  "StorePreviousPositions s =
     (case (mPositionsAtT s, X_x s) of ((d0, d1, d2), (x0, x1, x2)) \<Rightarrow>
        s\<lparr>mPositionsAtT := (copy_n d0 x0 (Size3 (X_x s)), copy_n d1 x1 (Size3 (X_x s)),
                             copy_n d2 x2 (Size3 (X_x s))),
          mStream := mStream s @ [CopyPositionsAtT 0, CopyPositionsAtT 1, CopyPositionsAtT 2]\<rparr>)"

text \<open>
  "Compute inertial target positions": the lambda reads \<open>xt = mPositionsAtT\<close>,
  \<open>vt = mVelocities\<close> and \<open>aext = mExternalAcceleration\<close> at \<open>i\<close> and stores
  \<open>InertialTarget\<close> of them into \<open>xtilde = mInertialTargetPositions\<close> at \<open>i\<close>.
\<close>

definition ComputeInertialTargets :: "nat \<Rightarrow> GpuScalar \<Rightarrow> GpuScalar \<Rightarrow> VbdImpl \<Rightarrow> VbdImpl" where
  "ComputeInertialTargets nVertices dt dt2 s =
     s\<lparr>mInertialTargetPositions :=
         for_each_store nVertices
           (\<lambda>i. InertialTarget (FromBuffers (mPositionsAtT s) i) (FromBuffers (mVelocities s) i)
                   (FromBuffers (mExternalAcceleration s) i) dt dt2)
           (mInertialTargetPositions s),
       mStream := mStream s @ [ForEachInertialTarget]\<rparr>"

text \<open>
  "Initialize block coordinate descent's solution".  \<^verbatim>\<open>InitialPositionsForSolve\<close> is
  defined in \<^verbatim>\<open>pbat/sim/vbd/Kernels.h\<close>, which is not among the sources, and the spec
  leaves its formula open: it is the parameter \<open>ips\<close>.
\<close>

type_synonym initial_positions =
  "vec3 \<Rightarrow> vec3 \<Rightarrow> vec3 \<Rightarrow> vec3 \<Rightarrow> GpuScalar \<Rightarrow> GpuScalar \<Rightarrow> EInitializationStrategy \<Rightarrow> vec3"

definition InitializeSolution ::
  "initial_positions \<Rightarrow> nat \<Rightarrow> GpuScalar \<Rightarrow> GpuScalar \<Rightarrow> VbdImpl \<Rightarrow> VbdImpl" where
  "InitializeSolution ips nVertices dt dt2 s =
     s\<lparr>X_x :=
         for_each_store nVertices
           (\<lambda>i. ips (FromBuffers (mPositionsAtT s) i) (FromBuffers (mVelocitiesAtT s) i)
                   (FromBuffers (mVelocities s) i) (FromBuffers (mExternalAcceleration s) i)
                   dt dt2 (mInitializationStrategy s))
           (X_x s),
       mStream := mStream s @ [ForEachInitialPositionsForSolve]\<rparr>"

text \<open>
  Modelled from the spec: \<^verbatim>\<open>kernels::MinimizeBackwardEuler\<close> is defined in
  \<^verbatim>\<open>Kernels.cu\<close>, which is not among the sources.  The spec (4.3, 4.4): one task per
  vertex of the group performs the local solve on the positions currently resident and
  writes that vertex's new position into the shared position buffer, and nothing else.
  The local solve is the parameter \<open>solve\<close>: from the sub-step size, its square, the
  integrator's buffers and a vertex, the vertex's new position.  A vertex index outside
  the buffer writes nothing.
\<close>

type_synonym local_solve = "GpuScalar \<Rightarrow> GpuScalar \<Rightarrow> VbdImpl \<Rightarrow> GpuIndex \<Rightarrow> vec3"

definition MinimizeBackwardEuler ::
  "local_solve \<Rightarrow> GpuScalar \<Rightarrow> GpuScalar \<Rightarrow> GpuIndex list \<Rightarrow> VbdImpl \<Rightarrow> VbdImpl" where
  "MinimizeBackwardEuler solve dt dt2 partition' s =
     s\<lparr>X_x :=
         fold (\<lambda>i x. if 0 \<le> i \<and> nat i < Size3 x
                      then ToBuffers (solve dt dt2 (s\<lparr>X_x := x\<rparr>) i) x (nat i) else x)
           partition' (X_x s),
       mStream := mStream s @ [LaunchMinimizeBackwardEuler partition']\<rparr>"

text \<open>
  The Chebyshev \<^verbatim>\<open>for_each\<close> of \<^verbatim>\<open>Step\<close>.  Its lambda reads element \<open>i\<close> of \<open>xkm2\<close>,
  \<open>xkm1\<close> and \<open>xk\<close> into the local vectors \<open>xkm2i\<close>, \<open>xkm1i\<close> and \<open>xki\<close>, calls
  \<^verbatim>\<open>ChebyshevUpdate(k, omega, xkm2i, xkm1i, xki)\<close> on them and returns: unlike the other
  lambdas of \<^verbatim>\<open>Step\<close>, it has no \<^verbatim>\<open>ToBuffers\<close> call, so the updated local vectors are
  dropped and the three buffers are left as they were.
\<close>

definition ChebyshevLambda ::
  "int \<Rightarrow> GpuScalar \<Rightarrow> Buffer3 \<times> Buffer3 \<times> Buffer3 \<Rightarrow> nat \<Rightarrow> Buffer3 \<times> Buffer3 \<times> Buffer3" where
  "ChebyshevLambda k omega bufs i =
     (case bufs of (xkm2, xkm1, xk) \<Rightarrow>
        (let xkm2i = FromBuffers xkm2 i;
             xkm1i = FromBuffers xkm1 i;
             xki = FromBuffers xk i;
             updated = ChebyshevUpdate k omega xkm2i xkm1i xki
         in (xkm2, xkm1, xk)))"

definition ChebyshevStep :: "nat \<Rightarrow> int \<Rightarrow> GpuScalar \<Rightarrow> VbdImpl \<Rightarrow> VbdImpl" where
  "ChebyshevStep nVertices k omega s =
     (case fold (\<lambda>i bufs. ChebyshevLambda k omega bufs i) [0..<nVertices]
             (mChebyshevPositionsM2 s, mChebyshevPositionsM1 s, X_x s) of
        (xkm2, xkm1, xk) \<Rightarrow>
          s\<lparr>mChebyshevPositionsM2 := xkm2, mChebyshevPositionsM1 := xkm1, X_x := xk,
            mStream := mStream s @ [ForEachChebyshevUpdate k omega]\<rparr>)"

text \<open>
  The body of the loop \<^verbatim>\<open>for (auto k = 0; k < iterations; ++k)\<close>, on the local \<open>omega\<close>
  and the object: the weight, the sweep over \<^verbatim>\<open>mPartitions\<close> in order, the Chebyshev
  \<^verbatim>\<open>for_each\<close>.
\<close>

definition Iteration ::
  "local_solve \<Rightarrow> nat \<Rightarrow> GpuScalar \<Rightarrow> GpuScalar \<Rightarrow> bool \<Rightarrow> GpuScalar \<Rightarrow> nat
    \<Rightarrow> GpuScalar \<times> VbdImpl \<Rightarrow> GpuScalar \<times> VbdImpl" where
  "Iteration solve nVertices dt dt2 bUse rho2 k st =
     (case st of (omega, s) \<Rightarrow>
        (let omega' = (if bUse then ChebyshevOmega (int k) rho2 omega else omega);
             s1 = fold (MinimizeBackwardEuler solve dt dt2) (mPartitions s) s;
             s2 = (if bUse then ChebyshevStep nVertices (int k) omega' s1 else s1)
         in (omega', s2)))"

text \<open>The first \<open>n\<close> iterations of the loop, \<open>k = 0, ..., n - 1\<close>.\<close>

definition Iterations ::
  "local_solve \<Rightarrow> nat \<Rightarrow> GpuScalar \<Rightarrow> GpuScalar \<Rightarrow> bool \<Rightarrow> GpuScalar \<Rightarrow> nat
    \<Rightarrow> GpuScalar \<times> VbdImpl \<Rightarrow> GpuScalar \<times> VbdImpl" where
  "Iterations solve nVertices dt dt2 bUse rho2 n st =
     fold (Iteration solve nVertices dt dt2 bUse rho2) [0..<n] st"

text \<open>"Update velocities": the copy of \<open>mVelocities\<close> into \<open>mVelocitiesAtT\<close>, dimension by
  dimension, then the \<^verbatim>\<open>for_each\<close> that stores \<open>IntegrateVelocity\<close> of \<open>xt = mPositionsAtT\<close>
  and \<open>x = X.x\<close> at \<open>i\<close> into \<open>v = mVelocities\<close> at \<open>i\<close>.\<close>

definition StorePreviousVelocities :: "VbdImpl \<Rightarrow> VbdImpl" where
  "StorePreviousVelocities s =
     (case (mVelocitiesAtT s, mVelocities s) of ((d0, d1, d2), (v0, v1, v2)) \<Rightarrow>
        s\<lparr>mVelocitiesAtT := (copy_n d0 v0 (Size3 (mVelocities s)), copy_n d1 v1 (Size3 (mVelocities s)),
                              copy_n d2 v2 (Size3 (mVelocities s))),
          mStream := mStream s @ [CopyVelocitiesAtT 0, CopyVelocitiesAtT 1, CopyVelocitiesAtT 2]\<rparr>)"

definition UpdateVelocities :: "nat \<Rightarrow> GpuScalar \<Rightarrow> VbdImpl \<Rightarrow> VbdImpl" where
  "UpdateVelocities nVertices dt s =
     s\<lparr>mVelocities :=
         for_each_store nVertices
           (\<lambda>i. IntegrateVelocity (FromBuffers (mPositionsAtT s) i) (FromBuffers (X_x s) i) dt)
           (mVelocities s),
       mStream := mStream s @ [ForEachIntegrateVelocity]\<rparr>"

text \<open>
  The body of the loop \<^verbatim>\<open>for (auto s = 0; s < substeps; ++s)\<close>.  \<open>omega\<close> is declared
  in the body, value-initialised (\<^verbatim>\<open>GpuScalar omega{}\<close>).
\<close>

definition Substep ::
  "initial_positions \<Rightarrow> local_solve \<Rightarrow> nat \<Rightarrow> GpuScalar \<Rightarrow> GpuScalar \<Rightarrow> bool \<Rightarrow> GpuIndex
    \<Rightarrow> GpuScalar \<Rightarrow> VbdImpl \<Rightarrow> VbdImpl" where
  "Substep ips solve nVertices sdt sdt2 bUse iterations rho s =
     (let s1 = StorePreviousPositions s;
          s2 = ComputeInertialTargets nVertices sdt sdt2 s1;
          s3 = InitializeSolution ips nVertices sdt sdt2 s2;
          rho2 = rho * rho;
          omega = 0;
          s4 = snd (Iterations solve nVertices sdt sdt2 bUse rho2 (nat iterations) (omega, s3));
          s5 = StorePreviousVelocities s4
      in UpdateVelocities nVertices sdt s5)"

text \<open>
  \<^verbatim>\<open>void VbdImpl::Step(GpuScalar dt, GpuIndex iterations, GpuIndex substeps, GpuScalar rho)\<close>.
  The fields of \<^verbatim>\<open>bdf\<close> are the sub-step size, its square and pointers to or copies of
  members of the object, which the kernel reads when it runs: they are what \<open>solve\<close> is
  given.  \<open>AfterSubsteps ... j s\<close> is the object after the first \<open>j\<close> passes of the loop
  over the sub-steps; \<^verbatim>\<open>Step\<close> makes \<open>substeps\<close> passes (none when \<open>substeps <= 0\<close>),
  waits for the stream and returns.  The function has no \<^verbatim>\<open>throw\<close> and no check of
  its arguments or of the buffers; failures of the CUDA runtime are not modelled.
\<close>

definition AfterSubsteps ::
  "initial_positions \<Rightarrow> local_solve \<Rightarrow> GpuScalar \<Rightarrow> GpuIndex \<Rightarrow> GpuIndex \<Rightarrow> GpuScalar
    \<Rightarrow> nat \<Rightarrow> VbdImpl \<Rightarrow> VbdImpl" where
  "AfterSubsteps ips solve dt iterations substeps rho j s =
     (let sdt = dt / real_of_int substeps;
          sdt2 = sdt * sdt;
          nVertices = NumberOfPoints s;
          bUse = bUseChebyshevAcceleration rho
      in fold (\<lambda>_. Substep ips solve nVertices sdt sdt2 bUse iterations rho) [0..<j] s)"

definition Step ::
  "initial_positions \<Rightarrow> local_solve \<Rightarrow> GpuScalar \<Rightarrow> GpuIndex \<Rightarrow> GpuIndex \<Rightarrow> GpuScalar
    \<Rightarrow> VbdImpl \<Rightarrow> VbdImpl outcome" where
  "Step ips solve dt iterations substeps rho s =
     (AfterSubsteps ips solve dt iterations substeps rho (nat substeps) s, None)"

subsection \<open>Setters that validate or resize\<close>

text \<open>
  \<^verbatim>\<open>std::to_string\<close> and \<^verbatim>\<open>operator<<\<close> on a size: its decimal digits.
\<close>

function to_string :: "nat \<Rightarrow> string" where
  "to_string n =
     (if n < 10 then [char_of (48 + n)] else to_string (n div 10) @ [char_of (48 + n mod 10)])"
  by pat_completeness auto
termination
  by (relation "measure id") auto

declare to_string.simps [simp del]

text \<open>
  Modelled from the spec: \<^verbatim>\<open>common::ToBuffer(A, buf)\<close> is declared in
  \<^verbatim>\<open>pbat/gpu/common/Eigen.cuh\<close>, which is not among the sources.  The spec (4.1, 7): a
  setter validates the shape of its input against the size the buffer has and fails
  with an invalid-argument condition on mismatch, with a message naming expected and
  actual sizes; nothing is truncated or padded.  The text of the message is the
  parameter \<open>what\<close>, from the buffer's size and the input's.  On success the input is
  copied over the buffer.
\<close>

definition ToBuffer :: "(nat \<Rightarrow> nat \<Rightarrow> string) \<Rightarrow> 'a list \<Rightarrow> 'a Buffer \<Rightarrow> error + 'a Buffer" where
  "ToBuffer what A buf =
     (if length A \<noteq> length buf then Inl (invalid_argument (what (length buf) (length A)))
      else Inr (copy_n buf A (length A)))"

text \<open>
  The message of \<^verbatim>\<open>SetVertexTetrahedronAdjacencyList\<close>, from \<^verbatim>\<open>GVTn.size()\<close> and
  \<^verbatim>\<open>GVTilocal.size()\<close>.
\<close>

definition adjacency_what :: "nat \<Rightarrow> nat \<Rightarrow> string" where
  "adjacency_what n m =
     ''Expected vertex-tetrahedron adjacency graph'' @ [CHR 0x27]
     @ ''s neighbour array and data (ilocal) array to have the same size, but got neighbours=''
     @ to_string n @ '', ilocal='' @ to_string m @ '' '' @ [CHR 0x0A]"

definition SetVertexTetrahedronAdjacencyList ::
  "(nat \<Rightarrow> nat \<Rightarrow> string) \<Rightarrow> GpuIndex list \<Rightarrow> GpuIndex list \<Rightarrow> GpuIndex list \<Rightarrow> VbdImpl
    \<Rightarrow> VbdImpl outcome" where
  "SetVertexTetrahedronAdjacencyList what GVTp GVTn GVTilocal s =
     (if length GVTn \<noteq> length GVTilocal
      then (s, Some (invalid_argument (adjacency_what (length GVTn) (length GVTilocal))))
      else
        (case ToBuffer what GVTp (mVertexTetrahedronPrefix s) of
           Inl ex \<Rightarrow> (s, Some ex)
         | Inr prefix \<Rightarrow>
             (let s1 = s\<lparr>mVertexTetrahedronPrefix := prefix\<rparr>;
                  s2 = s1\<lparr>mVertexTetrahedronNeighbours :=
                          Resize (length GVTn) (mVertexTetrahedronNeighbours s1)\<rparr>;
                  s3 = s2\<lparr>mVertexTetrahedronLocalVertexIndices :=
                          Resize (length GVTilocal) (mVertexTetrahedronLocalVertexIndices s2)\<rparr>
              in (case ToBuffer what GVTn (mVertexTetrahedronNeighbours s3) of
                    Inl ex \<Rightarrow> (s3, Some ex)
                  | Inr neighbours \<Rightarrow>
                      (let s4 = s3\<lparr>mVertexTetrahedronNeighbours := neighbours\<rparr>
                       in (case ToBuffer what GVTilocal (mVertexTetrahedronLocalVertexIndices s4) of
                             Inl ex \<Rightarrow> (s4, Some ex)
                           | Inr ilocal \<Rightarrow>
                               (s4\<lparr>mVertexTetrahedronLocalVertexIndices := ilocal\<rparr>, None)))))))"

text \<open>
  \<^verbatim>\<open>std::vector<common::Buffer<GpuIndex>>::resize(n)\<close>: the first \<open>n\<close> buffers are kept,
  new ones are empty.
\<close>

definition vector_resize :: "nat \<Rightarrow> 'a list list \<Rightarrow> 'a list list" where
  "vector_resize n v = take n v @ replicate (n - length v) []"

text \<open>
  \<^verbatim>\<open>SetVertexPartitions\<close>: \<^verbatim>\<open>mPartitions\<close> is resized to the number of groups; then, for
  each \<open>p\<close>, \<^verbatim>\<open>mPartitions[p]\<close> is resized to the size of group \<open>p\<close> and the group is copied
  into it.  Nothing is checked and nothing is thrown.
\<close>

definition SetVertexPartitions :: "GpuIndex list list \<Rightarrow> VbdImpl \<Rightarrow> VbdImpl outcome" where
  "SetVertexPartitions partitions s =
     (let s0 = s\<lparr>mPartitions := vector_resize (length partitions) (mPartitions s)\<rparr>
      in (fold (\<lambda>p s'. s'\<lparr>mPartitions :=
                   (mPartitions s')
                     [p := copy_n (Resize (length (partitions ! p)) (mPartitions s' ! p))
                             (partitions ! p) (length (partitions ! p))]\<rparr>)
            [0..<length partitions] s0,
          None))"

subsection \<open>The partition invariant in the spec's words\<close>

text \<open>
  The spec (3, 6): the adjacency is compressed, a prefix array of length \<open>N + 1\<close> and a
  neighbour array; the elements incident to vertex \<open>i\<close> are the neighbours from
  \<open>prefix[i]\<close> up to \<open>prefix[i + 1]\<close>.  Within one group of a partition, no two vertices
  share an incident element.
\<close>

definition IncidentElements :: "VbdImpl \<Rightarrow> GpuIndex \<Rightarrow> GpuIndex list" where
  "IncidentElements s i =
     map (\<lambda>k. mVertexTetrahedronNeighbours s ! k)
       [nat (mVertexTetrahedronPrefix s ! nat i) ..< nat (mVertexTetrahedronPrefix s ! (nat i + 1))]"

definition ShareIncidentElement :: "VbdImpl \<Rightarrow> GpuIndex \<Rightarrow> GpuIndex \<Rightarrow> bool" where
  "ShareIncidentElement s i j =
     list_ex (\<lambda>el. el \<in> set (IncidentElements s j)) (IncidentElements s i)"

definition PartitionInvariant :: "VbdImpl \<Rightarrow> GpuIndex list list \<Rightarrow> bool" where
  "PartitionInvariant s partitions =
     list_all (\<lambda>g. list_all (\<lambda>a. list_all (\<lambda>b. a = b \<or> \<not> ShareIncidentElement s (g ! a) (g ! b))
                                [0..<length g]) [0..<length g]) partitions"


section \<open>The overlap query (BvhQueryImpl)\<close>












subsection \<open>The sizes declared at construction\<close>

text \<open>
  The sizes the constructor gives the buffers, with \<open>n\<close> the number of points and \<open>m\<close>
  the number of tetrahedra.
\<close>

definition SizedAsConstructed :: "VbdImpl \<Rightarrow> bool" where
  "SizedAsConstructed s =
     (HasSize3 (NumberOfPoints s) (X_x s)
      \<and> HasSize3 (NumberOfPoints s) (mPositionsAtT s)
      \<and> HasSize3 (NumberOfPoints s) (mInertialTargetPositions s)
      \<and> HasSize3 (NumberOfPoints s) (mChebyshevPositionsM2 s)
      \<and> HasSize3 (NumberOfPoints s) (mChebyshevPositionsM1 s)
      \<and> HasSize3 (NumberOfPoints s) (mVelocitiesAtT s)
      \<and> HasSize3 (NumberOfPoints s) (mVelocities s)
      \<and> HasSize3 (NumberOfPoints s) (mExternalAcceleration s)
      \<and> length (mMass s) = NumberOfPoints s
      \<and> length (mQuadratureWeights s) = length (T_inds s)
      \<and> length (mShapeFunctionGradients s) = length (T_inds s) * 4 * 3
      \<and> length (mLameCoefficients s) = 2 * length (T_inds s)
      \<and> length (mVertexTetrahedronPrefix s) = NumberOfPoints s + 1
      \<and> length (mCollidingTriangles s) = 8 * NumberOfPoints s
      \<and> length (mCollidingTriangleCount s) = NumberOfPoints s)"

subsection \<open>The Chebyshev schedule in the spec's words\<close>

text \<open>
  The three-regime schedule of the spec (4.3), as a sequence in the iteration index:
  \<open>omega = 1\<close> for \<open>k = 0\<close>, \<open>omega = 2/(2 - rho^2)\<close> for \<open>k = 1\<close>, and
  \<open>omega = 4/(4 - rho^2 * omega_{k-1})\<close> afterwards.
\<close>

fun ChebyshevSchedule :: "GpuScalar \<Rightarrow> nat \<Rightarrow> GpuScalar" where
  "ChebyshevSchedule rho2 0 = 1"
| "ChebyshevSchedule rho2 (Suc 0) = 2 / (2 - rho2)"
| "ChebyshevSchedule rho2 (Suc (Suc k)) = 4 / (4 - rho2 * ChebyshevSchedule rho2 (Suc k))"

text \<open>
  What one iteration and one sub-step enqueue on the stream, given the partitions, when
  the weights follow the schedule.
\<close>

definition IterationOps :: "bool \<Rightarrow> GpuIndex list list \<Rightarrow> GpuScalar \<Rightarrow> nat \<Rightarrow> stream_op list" where
  "IterationOps bUse parts rho2 k =
     map LaunchMinimizeBackwardEuler parts
     @ (if bUse then [ForEachChebyshevUpdate (int k) (ChebyshevSchedule rho2 k)] else [])"

definition SubstepOps :: "bool \<Rightarrow> GpuIndex list list \<Rightarrow> GpuScalar \<Rightarrow> nat \<Rightarrow> stream_op list" where
  "SubstepOps bUse parts rho2 n =
     [CopyPositionsAtT 0, CopyPositionsAtT 1, CopyPositionsAtT 2,
      ForEachInertialTarget, ForEachInitialPositionsForSolve]
     @ concat (map (IterationOps bUse parts rho2) [0..<n])
     @ [CopyVelocitiesAtT 0, CopyVelocitiesAtT 1, CopyVelocitiesAtT 2, ForEachIntegrateVelocity]"

text \<open>The local \<open>omega\<close> after \<open>m\<close> iterations of the loop that started with \<open>om\<close>.\<close>

definition omega_after :: "bool \<Rightarrow> GpuScalar \<Rightarrow> GpuScalar \<Rightarrow> nat \<Rightarrow> GpuScalar" where
  "omega_after bUse rho2 om m = (if bUse \<and> m > 0 then ChebyshevSchedule rho2 (m - 1) else om)"

section \<open>An example: one free vertex under gravity\<close>

text \<open>
  One vertex at \<open>(0, 0, 1)\<close>, no tetrahedron, gravity \<open>(0, 0, -9.81)\<close> as external
  acceleration and the partition \<open>[[0]]\<close>; the state is the constructor's with the two
  fields set as \<^verbatim>\<open>SetExternalAcceleration\<close> and \<^verbatim>\<open>SetVertexPartitions\<close> set them.
\<close>

definition free_vertex :: VbdImpl where
  "free_vertex = (VbdImpl_ctor [Vec3 0 0 1] [[0]] [] [])
     \<lparr>mExternalAcceleration := ([0], [0], [- 981 / 100]), mPartitions := [[0]]\<rparr>"

text \<open>An initial guess that starts the solve from the previous position.\<close>

definition ips_previous :: initial_positions where
  "ips_previous xt vtm1 vt aext dt dt2 strategy = xt"

text \<open>
  The local solve of a vertex with no incident element and no contact: the energy is the
  inertial term alone, whose Newton step lands on the inertial target.
\<close>

definition solve_free :: local_solve where
  "solve_free dt dt2 s i = FromBuffers (mInertialTargetPositions s) (nat i)"

text \<open>
  A local solve that stops halfway between the vertex and its inertial target (the
  Newton step against a Hessian twice the inertial one): the sweeps take several
  iterations to converge.
\<close>

definition solve_halfway :: local_solve where
  "solve_halfway dt dt2 s i =
     smul (1 / 2) (FromBuffers (X_x s) (nat i) + FromBuffers (mInertialTargetPositions s) (nat i))"

text \<open>An example of a message for \<^verbatim>\<open>ToBuffer\<close>, naming the expected and the actual size.\<close>

definition example_what :: "nat \<Rightarrow> nat \<Rightarrow> string" where
  "example_what expected actual =
     ''Expected input of size '' @ to_string expected @ '', but got '' @ to_string actual"

text \<open>
  One tetrahedron on four vertices, with the three adjacency buffers as
  \<^verbatim>\<open>SetVertexTetrahedronAdjacencyList\<close> sets them: every vertex is incident to
  tetrahedron \<open>0\<close>.
\<close>

definition one_tetrahedron :: VbdImpl where
  "one_tetrahedron =
     (VbdImpl_ctor [Vec3 0 0 0, Vec3 1 0 0, Vec3 0 1 0, Vec3 0 0 1]
        [[0], [1], [2], [3]] [[0, 1, 2], [0, 1, 3], [0, 2, 3], [1, 2, 3]] [[0, 1, 2, 3]])
     \<lparr>mVertexTetrahedronPrefix := [0, 1, 2, 3, 4],
      mVertexTetrahedronNeighbours := [0, 0, 0, 0],
      mVertexTetrahedronLocalVertexIndices := [0, 1, 2, 3]\<rparr>"





section \<open>Properties\<close>

subsection \<open>Buffers and the for_each launches\<close>

lemma fold_update_nth:
  "n \<le> length a \<Longrightarrow> i < n \<Longrightarrow> (fold (\<lambda>i a. a[i := g i]) [0..<n] a) ! i = g i"
proof (induction n arbitrary: i)
  case 0 then show ?case by simp
next
  case (Suc n)
  have len: "length (fold (\<lambda>i a. a[i := g i]) [0..<n] a) = length a"
    by (induction n) simp_all
  show ?case
  proof (cases "i = n")
    case True then show ?thesis using Suc.prems len by simp
  next
    case False
    then have "i < n" using Suc.prems by simp
    then show ?thesis using Suc by simp
  qed
qed

lemma fold_update_length:
  "length (fold (\<lambda>i a. a[i := g i]) [0..<n] a) = length a"
  by (induction n) simp_all

lemma for_each_store_split:
  "for_each_store n f (a, b, c) =
     (fold (\<lambda>i a. a[i := c0 (f i)]) [0..<n] a,
      fold (\<lambda>i a. a[i := c1 (f i)]) [0..<n] b,
      fold (\<lambda>i a. a[i := c2 (f i)]) [0..<n] c)"
proof (induction n)
  case 0 then show ?case by (simp add: for_each_store_def)
next
  case (Suc n)
  obtain x y z where f: "f n = Vec3 x y z" by (cases "f n")
  show ?case using Suc by (simp add: for_each_store_def f)
qed

lemma for_each_store_size:
  "HasSize3 m buf \<Longrightarrow> HasSize3 m (for_each_store n f buf)"
  by (cases buf) (simp add: for_each_store_split fold_update_length)

lemma vec3_eta: "Vec3 (c0 v) (c1 v) (c2 v) = v"
  by (cases v) simp

lemma for_each_store_nth:
  "HasSize3 m buf \<Longrightarrow> n \<le> m \<Longrightarrow> i < n \<Longrightarrow> FromBuffers (for_each_store n f buf) i = f i"
  by (cases buf) (simp add: for_each_store_split fold_update_nth vec3_eta)

lemma copy_n_all: "length dst = n \<Longrightarrow> length src = n \<Longrightarrow> copy_n dst src n = src"
  by (simp add: copy_n_def)

lemma HasSize3_Size3: "HasSize3 n x \<Longrightarrow> Size3 x = n"
  by (cases x) simp

lemma ToBuffers_size: "HasSize3 N x \<Longrightarrow> HasSize3 N (ToBuffers v x i)"
  by (cases v; cases x) simp

lemma length_Resize: "length (Resize n buf) = n"
  by (simp add: Resize_def)

lemma replicate3_nth:
  "i < n \<Longrightarrow> FromBuffers (replicate n a, replicate n b, replicate n c) i = Vec3 a b c"
  by simp

lemma PointsImpl_nth: "i < length Xin \<Longrightarrow> FromBuffers (PointsImpl Xin) i = Xin ! i"
  by (simp add: PointsImpl_def vec3_eta)

lemma zip_replicate_same: "zip (replicate n a) (replicate n b) = replicate n (a, b)"
  by (induction n) simp_all

subsection \<open>The Chebyshev for_each and the sweep\<close>

lemma ChebyshevLambda_id: "ChebyshevLambda k omega bufs i = bufs"
  by (simp add: ChebyshevLambda_def Let_def split: prod.splits)

lemma ChebyshevLambda_fold: "fold (\<lambda>i bufs. ChebyshevLambda k omega bufs i) xs bufs = bufs"
  by (induction xs) (simp_all add: ChebyshevLambda_id)

lemma ChebyshevStep_frame:
  "ChebyshevStep n k omega s = s\<lparr>mStream := mStream s @ [ForEachChebyshevUpdate k omega]\<rparr>"
  by (simp add: ChebyshevStep_def ChebyshevLambda_fold)

lemma solve_fold_size:
  "HasSize3 N x \<Longrightarrow>
   HasSize3 N (fold (\<lambda>i x. if 0 \<le> i \<and> nat i < Size3 x then ToBuffers (g x i) x (nat i) else x) p x)"
  by (induction p arbitrary: x) (simp_all add: ToBuffers_size)

lemma MinimizeBackwardEuler_frame:
  "\<exists>x. MinimizeBackwardEuler solve dt dt2 p s
          = s\<lparr>X_x := x, mStream := mStream s @ [LaunchMinimizeBackwardEuler p]\<rparr>
       \<and> (\<forall>N. HasSize3 N (X_x s) \<longrightarrow> HasSize3 N x)"
  unfolding MinimizeBackwardEuler_def
  by (intro exI conjI allI impI, rule refl, rule solve_fold_size)

lemma sweep_frame:
  "\<exists>x. fold (MinimizeBackwardEuler solve dt dt2) ps s
          = s\<lparr>X_x := x, mStream := mStream s @ map LaunchMinimizeBackwardEuler ps\<rparr>
       \<and> (\<forall>N. HasSize3 N (X_x s) \<longrightarrow> HasSize3 N x)"
proof (induction ps arbitrary: s)
  case Nil
  have "s = s\<lparr>X_x := X_x s, mStream := mStream s @ []\<rparr>" by simp
  then show ?case by (intro exI [of _ "X_x s"]) simp
next
  case (Cons p ps)
  obtain x1 where 1: "MinimizeBackwardEuler solve dt dt2 p s
          = s\<lparr>X_x := x1, mStream := mStream s @ [LaunchMinimizeBackwardEuler p]\<rparr>"
    and h1: "\<forall>N. HasSize3 N (X_x s) \<longrightarrow> HasSize3 N x1"
    using MinimizeBackwardEuler_frame by blast
  let ?s1 = "s\<lparr>X_x := x1, mStream := mStream s @ [LaunchMinimizeBackwardEuler p]\<rparr>"
  obtain x2 where 2: "fold (MinimizeBackwardEuler solve dt dt2) ps ?s1
          = ?s1\<lparr>X_x := x2, mStream := mStream ?s1 @ map LaunchMinimizeBackwardEuler ps\<rparr>"
    and h2: "\<forall>N. HasSize3 N (X_x ?s1) \<longrightarrow> HasSize3 N x2"
    using Cons.IH [of ?s1] by blast
  have "fold (MinimizeBackwardEuler solve dt dt2) (p # ps) s
          = s\<lparr>X_x := x2, mStream := mStream s @ map LaunchMinimizeBackwardEuler (p # ps)\<rparr>"
    using 1 2 by simp
  moreover have "\<forall>N. HasSize3 N (X_x s) \<longrightarrow> HasSize3 N x2"
    using h1 h2 by simp
  ultimately show ?case by blast
qed

subsection \<open>The loop over the iterations\<close>

lemma ChebyshevOmega_schedule:
  "ChebyshevOmega (int k) rho2 (omega_after True rho2 om k) = ChebyshevSchedule rho2 k"
proof (cases k)
  case 0 then show ?thesis by (simp add: ChebyshevOmega_def)
next
  case (Suc j)
  then show ?thesis by (cases j) (simp_all add: ChebyshevOmega_def omega_after_def)
qed

lemma Iteration_frame:
  "\<exists>x. Iteration solve n dt dt2 bUse rho2 k (omega_after bUse rho2 om k, s)
          = (omega_after bUse rho2 om (Suc k),
             s\<lparr>X_x := x, mStream := mStream s @ IterationOps bUse (mPartitions s) rho2 k\<rparr>)
       \<and> (\<forall>N. HasSize3 N (X_x s) \<longrightarrow> HasSize3 N x)"
proof -
  obtain x where 1: "fold (MinimizeBackwardEuler solve dt dt2) (mPartitions s) s
          = s\<lparr>X_x := x, mStream := mStream s @ map LaunchMinimizeBackwardEuler (mPartitions s)\<rparr>"
    and h: "\<forall>N. HasSize3 N (X_x s) \<longrightarrow> HasSize3 N x"
    using sweep_frame by blast
  have om: "bUse \<Longrightarrow> ChebyshevOmega (int k) rho2 (omega_after bUse rho2 om k) = ChebyshevSchedule rho2 k"
    using ChebyshevOmega_schedule by simp
  have "Iteration solve n dt dt2 bUse rho2 k (omega_after bUse rho2 om k, s)
          = (omega_after bUse rho2 om (Suc k),
             s\<lparr>X_x := x, mStream := mStream s @ IterationOps bUse (mPartitions s) rho2 k\<rparr>)"
  proof (cases bUse)
    case True
    then show ?thesis
      using om by (simp add: Iteration_def 1 ChebyshevStep_frame IterationOps_def omega_after_def Let_def)
  next
    case False
    then show ?thesis
      by (simp add: Iteration_def 1 IterationOps_def omega_after_def Let_def)
  qed
  then show ?thesis using h by blast
qed

lemma Iterations_frame:
  "\<exists>x. Iterations solve n dt dt2 bUse rho2 m (om, s)
          = (omega_after bUse rho2 om m,
             s\<lparr>X_x := x,
               mStream := mStream s @ concat (map (IterationOps bUse (mPartitions s) rho2) [0..<m])\<rparr>)
       \<and> (\<forall>N. HasSize3 N (X_x s) \<longrightarrow> HasSize3 N x)"
proof (induction m)
  case 0
  have "s = s\<lparr>X_x := X_x s, mStream := mStream s @ []\<rparr>" by simp
  then show ?case
    by (intro exI [of _ "X_x s"]) (simp add: Iterations_def omega_after_def)
next
  case (Suc m)
  obtain x1 where 1: "Iterations solve n dt dt2 bUse rho2 m (om, s)
          = (omega_after bUse rho2 om m,
             s\<lparr>X_x := x1,
               mStream := mStream s @ concat (map (IterationOps bUse (mPartitions s) rho2) [0..<m])\<rparr>)"
    and h1: "\<forall>N. HasSize3 N (X_x s) \<longrightarrow> HasSize3 N x1"
    using Suc.IH by blast
  let ?s1 = "s\<lparr>X_x := x1,
               mStream := mStream s @ concat (map (IterationOps bUse (mPartitions s) rho2) [0..<m])\<rparr>"
  obtain x2 where 2: "Iteration solve n dt dt2 bUse rho2 m (omega_after bUse rho2 om m, ?s1)
          = (omega_after bUse rho2 om (Suc m),
             ?s1\<lparr>X_x := x2, mStream := mStream ?s1 @ IterationOps bUse (mPartitions ?s1) rho2 m\<rparr>)"
    and h2: "\<forall>N. HasSize3 N (X_x ?s1) \<longrightarrow> HasSize3 N x2"
    using Iteration_frame [of solve n dt dt2 bUse rho2 m om ?s1] by blast
  have "Iterations solve n dt dt2 bUse rho2 (Suc m) (om, s)
          = Iteration solve n dt dt2 bUse rho2 m (Iterations solve n dt dt2 bUse rho2 m (om, s))"
    by (simp add: Iterations_def)
  then have "Iterations solve n dt dt2 bUse rho2 (Suc m) (om, s)
          = (omega_after bUse rho2 om (Suc m),
             s\<lparr>X_x := x2,
               mStream := mStream s @ concat (map (IterationOps bUse (mPartitions s) rho2) [0..<Suc m])\<rparr>)"
    using 1 2 by simp
  moreover have "\<forall>N. HasSize3 N (X_x s) \<longrightarrow> HasSize3 N x2"
    using h1 h2 by simp
  ultimately show ?case by blast
qed

lemma Iterations_omega:
  "fst (Iterations solve n dt dt2 bUse rho2 m (om, s)) = omega_after bUse rho2 om m"
  using Iterations_frame [of solve n dt dt2 bUse rho2 m om s] by auto

lemma Iterations_stream:
  "mStream (snd (Iterations solve n dt dt2 bUse rho2 m (om, s)))
     = mStream s @ concat (map (IterationOps bUse (mPartitions s) rho2) [0..<m])"
  using Iterations_frame [of solve n dt dt2 bUse rho2 m om s] by auto

lemma Iterations_prefix:
  "k \<le> m \<Longrightarrow> Iterations solve n dt dt2 bUse rho2 m st
     = fold (Iteration solve n dt dt2 bUse rho2) [k..<m] (Iterations solve n dt dt2 bUse rho2 k st)"
proof -
  assume "k \<le> m"
  then have "[0..<m] = [0..<k] @ [k..<m]"
    by (metis le_add_diff_inverse upt_add_eq_append zero_le)
  then show ?thesis by (simp add: Iterations_def)
qed

lemma schedule_bounds:
  assumes "0 < r" and "r < 1"
  shows "1 \<le> ChebyshevSchedule r k \<and> ChebyshevSchedule r k < 2"
  using assms
proof (induction r k rule: ChebyshevSchedule.induct)
  case (1 rho2)
  show ?case by simp
next
  case (2 rho2)
  have d: "0 < 2 - rho2" using 2 by simp
  have "1 \<le> 2 / (2 - rho2)" using d 2 by (simp add: pos_le_divide_eq)
  moreover have "2 / (2 - rho2) < 2" using d 2 by (simp add: pos_divide_less_eq)
  ultimately show ?case by simp
next
  case (3 rho2 k)
  let ?w = "ChebyshevSchedule rho2 (Suc k)"
  have w: "1 \<le> ?w" "?w < 2" using 3 by simp_all
  have "rho2 * ?w < 1 * ?w" using 3(3) w(1) by (intro mult_strict_right_mono) simp_all
  then have u: "rho2 * ?w < 2" using w(2) by simp
  have l: "0 \<le> rho2 * ?w" using 3(2) w(1) by simp
  have d: "0 < 4 - rho2 * ?w" using u by simp
  have "1 \<le> 4 / (4 - rho2 * ?w)" using d l by (simp add: pos_le_divide_eq)
  moreover have "4 / (4 - rho2 * ?w) < 2" using d u by (simp add: pos_divide_less_eq)
  ultimately show ?case by simp
qed

subsection \<open>A sub-step and the loop over the sub-steps\<close>

lemma StorePreviousPositions_frame:
  "HasSize3 n (X_x s) \<Longrightarrow> HasSize3 n (mPositionsAtT s) \<Longrightarrow>
   StorePreviousPositions s
     = s\<lparr>mPositionsAtT := X_x s,
         mStream := mStream s @ [CopyPositionsAtT 0, CopyPositionsAtT 1, CopyPositionsAtT 2]\<rparr>"
  by (cases "X_x s"; cases "mPositionsAtT s") (simp add: StorePreviousPositions_def copy_n_all)

lemma StorePreviousVelocities_frame:
  "HasSize3 n (mVelocities s) \<Longrightarrow> HasSize3 n (mVelocitiesAtT s) \<Longrightarrow>
   StorePreviousVelocities s
     = s\<lparr>mVelocitiesAtT := mVelocities s,
         mStream := mStream s @ [CopyVelocitiesAtT 0, CopyVelocitiesAtT 1, CopyVelocitiesAtT 2]\<rparr>"
  by (cases "mVelocities s"; cases "mVelocitiesAtT s") (simp add: StorePreviousVelocities_def copy_n_all)

lemma Substep_frame:
  assumes "HasSize3 n (X_x s)" and "HasSize3 n (mPositionsAtT s)"
    and "HasSize3 n (mVelocities s)" and "HasSize3 n (mVelocitiesAtT s)"
  shows "\<exists>x. Substep ips solve n sdt sdt2 bUse iterations rho s
           = s\<lparr>mPositionsAtT := X_x s,
               mInertialTargetPositions :=
                 for_each_store n
                   (\<lambda>i. InertialTarget (FromBuffers (X_x s) i) (FromBuffers (mVelocities s) i)
                           (FromBuffers (mExternalAcceleration s) i) sdt sdt2)
                   (mInertialTargetPositions s),
               X_x := x,
               mVelocitiesAtT := mVelocities s,
               mVelocities :=
                 for_each_store n (\<lambda>i. IntegrateVelocity (FromBuffers (X_x s) i) (FromBuffers x i) sdt)
                   (mVelocities s),
               mStream := mStream s @ SubstepOps bUse (mPartitions s) (rho * rho) (nat iterations)\<rparr>
         \<and> HasSize3 n x"
proof -
  let ?s1 = "StorePreviousPositions s"
  let ?s2 = "ComputeInertialTargets n sdt sdt2 ?s1"
  let ?s3 = "InitializeSolution ips n sdt sdt2 ?s2"
  have s1: "?s1 = s\<lparr>mPositionsAtT := X_x s,
         mStream := mStream s @ [CopyPositionsAtT 0, CopyPositionsAtT 1, CopyPositionsAtT 2]\<rparr>"
    using assms(1,2) by (rule StorePreviousPositions_frame)
  have x3: "HasSize3 n (X_x ?s3)"
    by (simp add: InitializeSolution_def ComputeInertialTargets_def s1 for_each_store_size assms(1))
  obtain x where it: "Iterations solve n sdt sdt2 bUse (rho * rho) (nat iterations) (0, ?s3)
          = (omega_after bUse (rho * rho) 0 (nat iterations),
             ?s3\<lparr>X_x := x,
               mStream := mStream ?s3 @ concat (map (IterationOps bUse (mPartitions ?s3) (rho * rho)) [0..<nat iterations])\<rparr>)"
    and hx: "\<forall>N. HasSize3 N (X_x ?s3) \<longrightarrow> HasSize3 N x"
    using Iterations_frame [of solve n sdt sdt2 bUse "rho * rho" "nat iterations" 0 ?s3] by blast
  have sx: "HasSize3 n x" using hx x3 by blast
  let ?s4 = "?s3\<lparr>X_x := x,
               mStream := mStream ?s3 @ concat (map (IterationOps bUse (mPartitions ?s3) (rho * rho)) [0..<nat iterations])\<rparr>"
  have v4: "mVelocities ?s4 = mVelocities s" "mVelocitiesAtT ?s4 = mVelocitiesAtT s"
    by (simp_all add: InitializeSolution_def ComputeInertialTargets_def s1)
  have s5: "StorePreviousVelocities ?s4
     = ?s4\<lparr>mVelocitiesAtT := mVelocities ?s4,
         mStream := mStream ?s4 @ [CopyVelocitiesAtT 0, CopyVelocitiesAtT 1, CopyVelocitiesAtT 2]\<rparr>"
    by (rule StorePreviousVelocities_frame [of n]) (simp_all add: v4 assms)
  have "Substep ips solve n sdt sdt2 bUse iterations rho s
          = UpdateVelocities n sdt (StorePreviousVelocities ?s4)"
    by (simp add: Substep_def Let_def it)
  also have "\<dots> = s\<lparr>mPositionsAtT := X_x s,
               mInertialTargetPositions :=
                 for_each_store n
                   (\<lambda>i. InertialTarget (FromBuffers (X_x s) i) (FromBuffers (mVelocities s) i)
                           (FromBuffers (mExternalAcceleration s) i) sdt sdt2)
                   (mInertialTargetPositions s),
               X_x := x,
               mVelocitiesAtT := mVelocities s,
               mVelocities :=
                 for_each_store n (\<lambda>i. IntegrateVelocity (FromBuffers (X_x s) i) (FromBuffers x i) sdt)
                   (mVelocities s),
               mStream := mStream s @ SubstepOps bUse (mPartitions s) (rho * rho) (nat iterations)\<rparr>"
    unfolding s5
    by (simp add: UpdateVelocities_def InitializeSolution_def ComputeInertialTargets_def s1 SubstepOps_def)
  finally show ?thesis using sx by blast
qed

lemma Sized_buffers:
  assumes "SizedAsConstructed s"
  shows "HasSize3 (NumberOfPoints s) (X_x s)" "HasSize3 (NumberOfPoints s) (mPositionsAtT s)"
    "HasSize3 (NumberOfPoints s) (mVelocities s)" "HasSize3 (NumberOfPoints s) (mVelocitiesAtT s)"
    "HasSize3 (NumberOfPoints s) (mInertialTargetPositions s)"
    "HasSize3 (NumberOfPoints s) (mExternalAcceleration s)"
  using assms by (simp_all add: SizedAsConstructed_def)

lemma Substep_inv:
  assumes "SizedAsConstructed s"
  shows "SizedAsConstructed (Substep ips solve (NumberOfPoints s) sdt sdt2 bUse iterations rho s)
       \<and> NumberOfPoints (Substep ips solve (NumberOfPoints s) sdt sdt2 bUse iterations rho s) = NumberOfPoints s
       \<and> mPartitions (Substep ips solve (NumberOfPoints s) sdt sdt2 bUse iterations rho s) = mPartitions s
       \<and> mStream (Substep ips solve (NumberOfPoints s) sdt sdt2 bUse iterations rho s)
           = mStream s @ SubstepOps bUse (mPartitions s) (rho * rho) (nat iterations)"
proof -
  note b = Sized_buffers [OF assms]
  obtain x where f: "Substep ips solve (NumberOfPoints s) sdt sdt2 bUse iterations rho s
           = s\<lparr>mPositionsAtT := X_x s,
               mInertialTargetPositions :=
                 for_each_store (NumberOfPoints s)
                   (\<lambda>i. InertialTarget (FromBuffers (X_x s) i) (FromBuffers (mVelocities s) i)
                           (FromBuffers (mExternalAcceleration s) i) sdt sdt2)
                   (mInertialTargetPositions s),
               X_x := x,
               mVelocitiesAtT := mVelocities s,
               mVelocities :=
                 for_each_store (NumberOfPoints s)
                   (\<lambda>i. IntegrateVelocity (FromBuffers (X_x s) i) (FromBuffers x i) sdt)
                   (mVelocities s),
               mStream := mStream s @ SubstepOps bUse (mPartitions s) (rho * rho) (nat iterations)\<rparr>"
    and sx: "HasSize3 (NumberOfPoints s) x"
    using Substep_frame [OF b(1) b(2) b(3) b(4)] by blast
  have n: "Size3 x = NumberOfPoints s" using sx by (rule HasSize3_Size3)
  show ?thesis
    unfolding f using assms sx n b
    by (simp add: SizedAsConstructed_def NumberOfPoints_def for_each_store_size)
qed

lemma AfterSubsteps_Suc:
  "AfterSubsteps ips solve dt iterations substeps rho (Suc j) s
     = Substep ips solve (NumberOfPoints s) (dt / real_of_int substeps)
         (dt / real_of_int substeps * (dt / real_of_int substeps))
         (bUseChebyshevAcceleration rho) iterations rho
         (AfterSubsteps ips solve dt iterations substeps rho j s)"
  by (simp add: AfterSubsteps_def Let_def)

lemma AfterSubsteps_inv:
  assumes "SizedAsConstructed s"
  shows "SizedAsConstructed (AfterSubsteps ips solve dt iterations substeps rho j s)
       \<and> NumberOfPoints (AfterSubsteps ips solve dt iterations substeps rho j s) = NumberOfPoints s
       \<and> mPartitions (AfterSubsteps ips solve dt iterations substeps rho j s) = mPartitions s
       \<and> mStream (AfterSubsteps ips solve dt iterations substeps rho j s)
           = mStream s @ concat (replicate j
               (SubstepOps (bUseChebyshevAcceleration rho) (mPartitions s) (rho * rho) (nat iterations)))"
proof (induction j)
  case 0
  show ?case using assms by (simp add: AfterSubsteps_def)
next
  case (Suc j)
  let ?sj = "AfterSubsteps ips solve dt iterations substeps rho j s"
  have sz: "SizedAsConstructed ?sj" and n: "NumberOfPoints ?sj = NumberOfPoints s"
    and p: "mPartitions ?sj = mPartitions s"
    and st: "mStream ?sj = mStream s @ concat (replicate j
               (SubstepOps (bUseChebyshevAcceleration rho) (mPartitions s) (rho * rho) (nat iterations)))"
    using Suc.IH by simp_all
  note i = Substep_inv [OF sz, of ips solve "dt / real_of_int substeps"
      "dt / real_of_int substeps * (dt / real_of_int substeps)" "bUseChebyshevAcceleration rho" iterations rho]
  have rep: "concat (replicate (Suc j) ops) = concat (replicate j ops) @ ops" for ops :: "stream_op list"
    by (induction j) simp_all
  show ?case
    unfolding AfterSubsteps_Suc rep using i by (simp add: n p st)
qed

lemma StorePreviousPositions_stream:
  "mStream (StorePreviousPositions t)
     = mStream t @ [CopyPositionsAtT 0, CopyPositionsAtT 1, CopyPositionsAtT 2]"
  "mPartitions (StorePreviousPositions t) = mPartitions t"
  by (simp_all add: StorePreviousPositions_def split: prod.splits)

lemma StorePreviousVelocities_stream:
  "mStream (StorePreviousVelocities t)
     = mStream t @ [CopyVelocitiesAtT 0, CopyVelocitiesAtT 1, CopyVelocitiesAtT 2]"
  "mPartitions (StorePreviousVelocities t) = mPartitions t"
  by (simp_all add: StorePreviousVelocities_def split: prod.splits)

lemma Substep_stream:
  "mStream (Substep ips solve n sdt sdt2 bUse iterations rho s)
     = mStream s @ SubstepOps bUse (mPartitions s) (rho * rho) (nat iterations)
   \<and> mPartitions (Substep ips solve n sdt sdt2 bUse iterations rho s) = mPartitions s"
proof -
  let ?s1 = "StorePreviousPositions s"
  let ?s2 = "ComputeInertialTargets n sdt sdt2 ?s1"
  let ?s3 = "InitializeSolution ips n sdt sdt2 ?s2"
  note s1 = StorePreviousPositions_stream [of s]
  have s3: "mStream ?s3 = mStream s @ [CopyPositionsAtT 0, CopyPositionsAtT 1, CopyPositionsAtT 2,
      ForEachInertialTarget, ForEachInitialPositionsForSolve]" "mPartitions ?s3 = mPartitions s"
    by (simp_all add: InitializeSolution_def ComputeInertialTargets_def s1)
  obtain x where it: "Iterations solve n sdt sdt2 bUse (rho * rho) (nat iterations) (0, ?s3)
          = (omega_after bUse (rho * rho) 0 (nat iterations),
             ?s3\<lparr>X_x := x,
               mStream := mStream ?s3 @ concat (map (IterationOps bUse (mPartitions ?s3) (rho * rho)) [0..<nat iterations])\<rparr>)"
    using Iterations_frame [of solve n sdt sdt2 bUse "rho * rho" "nat iterations" 0 ?s3] by blast
  let ?s4 = "?s3\<lparr>X_x := x,
               mStream := mStream ?s3 @ concat (map (IterationOps bUse (mPartitions ?s3) (rho * rho)) [0..<nat iterations])\<rparr>"
  have e: "Substep ips solve n sdt sdt2 bUse iterations rho s
          = UpdateVelocities n sdt (StorePreviousVelocities ?s4)"
    by (simp add: Substep_def Let_def it)
  show ?thesis
    unfolding e by (simp add: UpdateVelocities_def StorePreviousVelocities_stream s3 SubstepOps_def)
qed

lemma concat_replicate_Suc: "concat (replicate (Suc j) ops) = concat (replicate j ops) @ ops"
  by (induction j) simp_all

lemma AfterSubsteps_stream:
  "mStream (AfterSubsteps ips solve dt iterations substeps rho j s)
     = mStream s @ concat (replicate j
         (SubstepOps (bUseChebyshevAcceleration rho) (mPartitions s) (rho * rho) (nat iterations)))
   \<and> mPartitions (AfterSubsteps ips solve dt iterations substeps rho j s) = mPartitions s"
proof (induction j)
  case 0
  show ?case by (simp add: AfterSubsteps_def)
next
  case (Suc j)
  show ?case
    unfolding AfterSubsteps_Suc concat_replicate_Suc using Suc.IH by (simp add: Substep_stream)
qed

lemma SubstepOps_no_Chebyshev:
  "ForEachChebyshevUpdate k w \<notin> set (concat (replicate j (SubstepOps False parts r n)))"
  by (auto simp: SubstepOps_def IterationOps_def)

lemma SubstepOps_has_Chebyshev:
  "k < n \<Longrightarrow> 0 < j \<Longrightarrow>
   ForEachChebyshevUpdate (int k) (ChebyshevSchedule r k)
     \<in> set (concat (replicate j (SubstepOps True parts r n)))"
  by (auto simp: SubstepOps_def IterationOps_def)



text \<open>
  The guard of the acceleration: the flag is \<open>0 < rho < 1\<close>; without it no Chebyshev
  \<^verbatim>\<open>for_each\<close> is enqueued and \<open>omega\<close> is never assigned, with it one is enqueued per
  iteration.
\<close>

lemma Chebyshev_guard:
  "(bUseChebyshevAcceleration rho \<longleftrightarrow> 0 < rho \<and> rho < 1)
   \<and> (rho \<le> 0 \<or> rho \<ge> 1 \<longrightarrow>
        mStream (fst (Step ips solve dt iterations substeps rho s))
          = mStream s @ concat (replicate (nat substeps)
              (SubstepOps False (mPartitions s) (rho * rho) (nat iterations)))
        \<and> (\<forall>k w. ForEachChebyshevUpdate k w
              \<notin> set (concat (replicate (nat substeps)
                    (SubstepOps False (mPartitions s) (rho * rho) (nat iterations)))))
        \<and> (\<forall>n sdt sdt2 m om t.
              fst (Iterations solve n sdt sdt2 (bUseChebyshevAcceleration rho) (rho * rho) m (om, t)) = om))
   \<and> (0 < rho \<and> rho < 1 \<and> 0 < substeps \<and> k < nat iterations \<longrightarrow>
        mStream (fst (Step ips solve dt iterations substeps rho s))
          = mStream s @ concat (replicate (nat substeps)
              (SubstepOps True (mPartitions s) (rho * rho) (nat iterations)))
        \<and> ForEachChebyshevUpdate (int k) (ChebyshevSchedule (rho * rho) k)
              \<in> set (concat (replicate (nat substeps)
                    (SubstepOps True (mPartitions s) (rho * rho) (nat iterations)))))"
proof (intro conjI impI allI)
  show "bUseChebyshevAcceleration rho \<longleftrightarrow> 0 < rho \<and> rho < 1"
    by (simp add: bUseChebyshevAcceleration_def)
next
  assume "rho \<le> 0 \<or> rho \<ge> 1"
  then have b: "bUseChebyshevAcceleration rho = False"
    by (auto simp: bUseChebyshevAcceleration_def)
  show "mStream (fst (Step ips solve dt iterations substeps rho s))
          = mStream s @ concat (replicate (nat substeps)
              (SubstepOps False (mPartitions s) (rho * rho) (nat iterations)))"
    using AfterSubsteps_stream [of ips solve dt iterations substeps rho "nat substeps" s]
    by (simp add: Step_def b)
  show "ForEachChebyshevUpdate k' w
              \<notin> set (concat (replicate (nat substeps)
                    (SubstepOps False (mPartitions s) (rho * rho) (nat iterations))))" for k' w
    by (rule SubstepOps_no_Chebyshev)
  show "fst (Iterations solve n sdt sdt2 (bUseChebyshevAcceleration rho) (rho * rho) m (om, t)) = om"
    for n sdt sdt2 m om t
    by (simp add: Iterations_omega omega_after_def b)
next
  assume a: "0 < rho \<and> rho < 1 \<and> 0 < substeps \<and> k < nat iterations"
  then have b: "bUseChebyshevAcceleration rho = True"
    by (simp add: bUseChebyshevAcceleration_def)
  show "mStream (fst (Step ips solve dt iterations substeps rho s))
          = mStream s @ concat (replicate (nat substeps)
              (SubstepOps True (mPartitions s) (rho * rho) (nat iterations)))"
    using AfterSubsteps_stream [of ips solve dt iterations substeps rho "nat substeps" s]
    by (simp add: Step_def b)
  show "ForEachChebyshevUpdate (int k) (ChebyshevSchedule (rho * rho) k)
              \<in> set (concat (replicate (nat substeps)
                    (SubstepOps True (mPartitions s) (rho * rho) (nat iterations))))"
    using a by (intro SubstepOps_has_Chebyshev) simp_all
qed

subsection \<open>Construction and the setters\<close>

lemma VbdImpl_ctor_fields:
  "X_x (VbdImpl_ctor Xin Vin Fin Tin) = PointsImpl Xin"
  "mPositionsAtT (VbdImpl_ctor Xin Vin Fin Tin) = PointsImpl Xin"
  "mVelocities (VbdImpl_ctor Xin Vin Fin Tin)
     = (replicate (length Xin) 0, replicate (length Xin) 0, replicate (length Xin) 0)"
  "mVelocitiesAtT (VbdImpl_ctor Xin Vin Fin Tin)
     = (replicate (length Xin) 0, replicate (length Xin) 0, replicate (length Xin) 0)"
  "mExternalAcceleration (VbdImpl_ctor Xin Vin Fin Tin)
     = (replicate (length Xin) 0, replicate (length Xin) 0, replicate (length Xin) 0)"
  "mMass (VbdImpl_ctor Xin Vin Fin Tin) = replicate (length Xin) 1000"
  "mDetHZero (VbdImpl_ctor Xin Vin Fin Tin) = 1 / 10 ^ 10"
  "mRayleighDamping (VbdImpl_ctor Xin Vin Fin Tin) = 0"
  "mCollisionPenalty (VbdImpl_ctor Xin Vin Fin Tin) = 1000"
  "mMaxCollidingTrianglesPerVertex (VbdImpl_ctor Xin Vin Fin Tin) = 8"
  by (simp_all add: VbdImpl_ctor_def VbdImpl_members_def Let_def Buffer3_new_def Buffer_new_def
      SetConstant_def)

lemma VbdImpl_ctor_sized: "SizedAsConstructed (VbdImpl_ctor Xin Vin Fin Tin)"
  by (simp add: VbdImpl_ctor_def VbdImpl_members_def Let_def Buffer3_new_def Buffer_new_def
      SetConstant_def SizedAsConstructed_def NumberOfPoints_def PointsImpl_def)

lemma ToBuffer_ok: "length A = length buf \<Longrightarrow> ToBuffer what A buf = Inr A"
  by (simp add: ToBuffer_def copy_n_def)

lemma ToBuffer_fail:
  "length A \<noteq> length buf \<Longrightarrow> ToBuffer what A buf = Inl (invalid_argument (what (length buf) (length A)))"
  by (simp add: ToBuffer_def)

lemma SetVertexTetrahedronAdjacencyList_cases:
  "SetVertexTetrahedronAdjacencyList what GVTp GVTn GVTilocal s =
     (if length GVTn \<noteq> length GVTilocal
      then (s, Some (invalid_argument (adjacency_what (length GVTn) (length GVTilocal))))
      else if length GVTp \<noteq> length (mVertexTetrahedronPrefix s)
      then (s, Some (invalid_argument (what (length (mVertexTetrahedronPrefix s)) (length GVTp))))
      else (s\<lparr>mVertexTetrahedronPrefix := GVTp, mVertexTetrahedronNeighbours := GVTn,
               mVertexTetrahedronLocalVertexIndices := GVTilocal\<rparr>, None))"
proof (cases "length GVTn \<noteq> length GVTilocal")
  case True
  then show ?thesis by (simp add: SetVertexTetrahedronAdjacencyList_def)
next
  case eq: False
  show ?thesis
  proof (cases "length GVTp \<noteq> length (mVertexTetrahedronPrefix s)")
    case True
    then show ?thesis using eq
      by (simp add: SetVertexTetrahedronAdjacencyList_def ToBuffer_fail)
  next
    case False
    then show ?thesis using eq
      by (simp add: SetVertexTetrahedronAdjacencyList_def ToBuffer_ok length_Resize Let_def)
  qed
qed

lemma example_what_differs: "example_what expected actual \<noteq> adjacency_what n m"
  by (simp add: example_what_def adjacency_what_def)

lemma length_vector_resize: "length (vector_resize n v) = n"
  by (simp add: vector_resize_def)

lemma fold_mPartitions:
  "fold (\<lambda>p s'. s'\<lparr>mPartitions := F p (mPartitions s')\<rparr>) ps s
     = s\<lparr>mPartitions := fold F ps (mPartitions s)\<rparr>"
  by (induction ps arbitrary: s) simp_all

lemma copy_group: "copy_n (Resize (length g) old) g (length g) = g"
  by (simp add: copy_n_all length_Resize)

lemma fold_store_all:
  "length xs = length ys \<Longrightarrow> fold (\<lambda>p xs. xs[p := ys ! p]) [0..<length ys] xs = ys"
  by (rule nth_equalityI) (simp_all add: fold_update_length fold_update_nth)

lemma SetVertexPartitions_eq:
  "SetVertexPartitions partitions s = (s\<lparr>mPartitions := partitions\<rparr>, None)"
proof -
  let ?F = "\<lambda>p xs. xs[p := copy_n (Resize (length (partitions ! p)) (xs ! p))
                             (partitions ! p) (length (partitions ! p))]"
  have F: "?F = (\<lambda>p xs. xs[p := partitions ! p])"
    by (simp add: copy_group)
  have "fold ?F [0..<length partitions] (vector_resize (length partitions) (mPartitions s)) = partitions"
    unfolding F by (rule fold_store_all) (simp add: length_vector_resize)
  then show ?thesis
    unfolding SetVertexPartitions_def Let_def fold_mPartitions [of ?F] by simp
qed

subsection \<open>The overlap query\<close>




subsection \<open>The example state\<close>

lemma free_vertex_sized: "SizedAsConstructed free_vertex"
  by (simp add: free_vertex_def VbdImpl_ctor_def VbdImpl_members_def SizedAsConstructed_def
      NumberOfPoints_def PointsImpl_def Buffer3_new_def Buffer_new_def SetConstant_def Let_def)

lemma free_vertex_points: "NumberOfPoints free_vertex = 1"
  by (simp add: free_vertex_def VbdImpl_ctor_def VbdImpl_members_def
      NumberOfPoints_def PointsImpl_def Let_def)

lemma free_vertex_fields:
  "X_x free_vertex = ([0], [0], [1])"
  "mVelocities free_vertex = ([0], [0], [0])"
  "mExternalAcceleration free_vertex = ([0], [0], [- 981 / 100])"
  by (simp_all add: free_vertex_def VbdImpl_ctor_def VbdImpl_members_def
      PointsImpl_def Buffer3_new_def SetConstant_def Let_def)

section \<open>The claims\<close>

subsection \<open>The Chebyshev weight\<close>

text \<open>
  C1.  With Chebyshev acceleration enabled (\<open>0 < rho < 1\<close>), the weight that the loop
  over the iterations holds in \<open>omega\<close> after its update in iteration \<open>k\<close> (0-based; the
  first \<open>k + 1\<close> iterations have run) is \<open>1\<close> for \<open>k = 0\<close>, \<open>2 / (2 - rho^2)\<close> for
  \<open>k = 1\<close> and \<open>4 / (4 - rho^2 * omega_{k-1})\<close> for every \<open>k >= 2\<close>, with \<open>omega_{k-1}\<close> the
  weight of the iteration before, whatever \<open>omega\<close> was when the loop started (\<^verbatim>\<open>Step\<close>
  starts it at \<open>0\<close>); no denominator vanishes.  It is the weight the Chebyshev
  \<^verbatim>\<open>for_each\<close> of iteration \<open>k\<close> captures, enqueued after the launches of the sweep over
  the partitions, and the first \<open>k\<close> iterations are a prefix of any longer run of the loop.
\<close>

theorem Chebyshev_weight_schedule:
  assumes "0 < rho" and "rho < 1"
  shows "fst (Iterations solve n dt dt2 (bUseChebyshevAcceleration rho) (rho * rho) (Suc 0) (om, s)) = 1
       \<and> fst (Iterations solve n dt dt2 (bUseChebyshevAcceleration rho) (rho * rho) (Suc (Suc 0)) (om, s))
           = 2 / (2 - rho * rho)
       \<and> 2 - rho * rho \<noteq> 0
       \<and> (\<forall>k \<ge> 2.
            fst (Iterations solve n dt dt2 (bUseChebyshevAcceleration rho) (rho * rho) (Suc k) (om, s))
              = 4 / (4 - rho * rho
                       * fst (Iterations solve n dt dt2 (bUseChebyshevAcceleration rho) (rho * rho) k (om, s)))
            \<and> 4 - rho * rho
                 * fst (Iterations solve n dt dt2 (bUseChebyshevAcceleration rho) (rho * rho) k (om, s)) \<noteq> 0)
       \<and> (\<forall>k. mStream (snd (Iterations solve n dt dt2 (bUseChebyshevAcceleration rho) (rho * rho) (Suc k) (om, s)))
              = mStream (snd (Iterations solve n dt dt2 (bUseChebyshevAcceleration rho) (rho * rho) k (om, s)))
                @ map LaunchMinimizeBackwardEuler (mPartitions s)
                @ [ForEachChebyshevUpdate (int k)
                     (fst (Iterations solve n dt dt2 (bUseChebyshevAcceleration rho) (rho * rho) (Suc k) (om, s)))])
       \<and> (\<forall>k m. k \<le> m \<longrightarrow>
            Iterations solve n dt dt2 (bUseChebyshevAcceleration rho) (rho * rho) m (om, s)
              = fold (Iteration solve n dt dt2 (bUseChebyshevAcceleration rho) (rho * rho)) [k..<m]
                  (Iterations solve n dt dt2 (bUseChebyshevAcceleration rho) (rho * rho) k (om, s)))"
proof -
  have b: "bUseChebyshevAcceleration rho" using assms by (simp add: bUseChebyshevAcceleration_def)
  have h: "rho * rho < 1 * rho" using assms by (intro mult_strict_right_mono)
  have r0: "0 < rho * rho" using assms by simp
  have r1: "rho * rho < 1" using h assms by linarith
  note r = r0 r1
  note bd = schedule_bounds [OF r]
  have 0: "fst (Iterations solve n dt dt2 (bUseChebyshevAcceleration rho) (rho * rho) (Suc 0) (om, s)) = 1"
    by (simp add: Iterations_omega omega_after_def b)
  have 1: "fst (Iterations solve n dt dt2 (bUseChebyshevAcceleration rho) (rho * rho) (Suc (Suc 0)) (om, s))
           = 2 / (2 - rho * rho)"
    by (simp add: Iterations_omega omega_after_def b)
  have d1: "2 - rho * rho \<noteq> 0" using r by simp
  have 2: "fst (Iterations solve n dt dt2 (bUseChebyshevAcceleration rho) (rho * rho) (Suc k) (om, s))
              = 4 / (4 - rho * rho
                       * fst (Iterations solve n dt dt2 (bUseChebyshevAcceleration rho) (rho * rho) k (om, s)))
            \<and> 4 - rho * rho
                 * fst (Iterations solve n dt dt2 (bUseChebyshevAcceleration rho) (rho * rho) k (om, s)) \<noteq> 0"
    if "k \<ge> 2" for k
  proof -
    define j where "j = k - 2"
    have k: "k = Suc (Suc j)" using that by (simp add: j_def)
    let ?w = "ChebyshevSchedule (rho * rho) (Suc j)"
    have w: "1 \<le> ?w" "?w < 2" using bd [of "Suc j"] by simp_all
    have "rho * rho * ?w < 1 * ?w" using r(2) w(1) by (intro mult_strict_right_mono) simp_all
    then have "4 - rho * rho * ?w \<noteq> 0" using w(2) by simp
    then show ?thesis by (simp add: Iterations_omega omega_after_def b k)
  qed
  have 3: "mStream (snd (Iterations solve n dt dt2 (bUseChebyshevAcceleration rho) (rho * rho) (Suc k) (om, s)))
              = mStream (snd (Iterations solve n dt dt2 (bUseChebyshevAcceleration rho) (rho * rho) k (om, s)))
                @ map LaunchMinimizeBackwardEuler (mPartitions s)
                @ [ForEachChebyshevUpdate (int k)
                     (fst (Iterations solve n dt dt2 (bUseChebyshevAcceleration rho) (rho * rho) (Suc k) (om, s)))]" for k
    by (simp add: Iterations_stream Iterations_omega omega_after_def b IterationOps_def)
  have 4: "Iterations solve n dt dt2 (bUseChebyshevAcceleration rho) (rho * rho) m (om, s)
              = fold (Iteration solve n dt dt2 (bUseChebyshevAcceleration rho) (rho * rho)) [k..<m]
                  (Iterations solve n dt dt2 (bUseChebyshevAcceleration rho) (rho * rho) k (om, s))"
    if "k \<le> m" for k m
    using that by (rule Iterations_prefix)
  show ?thesis
    apply (intro conjI allI impI)
    subgoal by (rule 0)
    subgoal by (rule 1)
    subgoal by (rule d1)
    subgoal for k using 2 [of k] by simp
    subgoal for k using 2 [of k] by simp
    subgoal for k by (rule 3)
    subgoal for k m by (rule 4)
    done
qed

theorem Chebyshev_weight_schedule_witness:
  "(0::real) < 1 / 2 \<and> (1 / 2 :: real) < 1
   \<and> fst (Iterations solve_free 1 (1 / 100) (1 / 10000) (bUseChebyshevAcceleration (1 / 2))
         (1 / 2 * (1 / 2)) (Suc 0) (0, free_vertex)) = 1
   \<and> fst (Iterations solve_free 1 (1 / 100) (1 / 10000) (bUseChebyshevAcceleration (1 / 2))
         (1 / 2 * (1 / 2)) (Suc (Suc 0)) (0, free_vertex)) = 8 / 7
   \<and> fst (Iterations solve_free 1 (1 / 100) (1 / 10000) (bUseChebyshevAcceleration (1 / 2))
         (1 / 2 * (1 / 2)) (Suc (Suc (Suc 0))) (0, free_vertex)) = 14 / 13"
proof -
  have a: "(0::real) < 1 / 2" by simp
  have b: "(1 / 2 :: real) < 1" by simp
  have le: "2 \<le> Suc (Suc 0)" by simp
  have v2: "2 / (2 - 1 / 2 * (1 / 2)) = (8 / 7 :: real)" by simp
  have v3: "4 / (4 - 1 / 2 * (1 / 2) * (8 / 7)) = (14 / 13 :: real)" by simp
  note t = Chebyshev_weight_schedule [OF a b, of solve_free 1 "1 / 100" "1 / 10000" 0 free_vertex]
  note w0 = t [THEN conjunct1]
  note w1 = trans [OF t [THEN conjunct2, THEN conjunct1] v2]
  note c3 = t [THEN conjunct2, THEN conjunct2, THEN conjunct2, THEN conjunct1, rule_format,
      OF le, THEN conjunct1]
  note w2 = trans [OF c3 [unfolded w1] v3]
  show ?thesis using a b w0 w1 w2 by blast
qed

subsection \<open>The Chebyshev update of the positions\<close>

text \<open>
  C2: the code against the claim.  The Chebyshev \<^verbatim>\<open>for_each\<close> of \<^verbatim>\<open>Step\<close> changes
  neither the positions nor the two history buffers, for any \<open>k\<close> and \<open>omega\<close>.  On one
  free vertex under gravity, whose local solve lands on the inertial target,
  \<open>Step(0.01, 3, 1, 0.5)\<close> launches the update of every iteration, that of \<open>k = 2\<close> with
  weight \<open>14/13\<close>, and ends with both history buffers as constructed, all zero, where the
  last two iterates \<open>(0, 0, 999019/1000000)\<close> were to be stored.  With a local solve that
  converges over several sweeps, the position the call ends with is that of the third
  sweep, \<open>z = 7993133/8000000\<close>, where \<^verbatim>\<open>ChebyshevUpdate\<close> on the three iterates gives
  \<open>z = 51953893/52000000\<close> and the rolled history.
\<close>

theorem Step_drops_Chebyshev_update:
  "(\<forall>n k omega s.
      X_x (ChebyshevStep n k omega s) = X_x s
      \<and> mChebyshevPositionsM2 (ChebyshevStep n k omega s) = mChebyshevPositionsM2 s
      \<and> mChebyshevPositionsM1 (ChebyshevStep n k omega s) = mChebyshevPositionsM1 s)
   \<and> X_x (fst (Step ips_previous solve_free (1 / 100) 3 1 (1 / 2) free_vertex))
       = ([0], [0], [999019 / 1000000])
   \<and> mChebyshevPositionsM2 (fst (Step ips_previous solve_free (1 / 100) 3 1 (1 / 2) free_vertex))
       = ([0], [0], [0])
   \<and> mChebyshevPositionsM1 (fst (Step ips_previous solve_free (1 / 100) 3 1 (1 / 2) free_vertex))
       = ([0], [0], [0])
   \<and> mStream (fst (Step ips_previous solve_free (1 / 100) 3 1 (1 / 2) free_vertex))
       = [CopyPositionsAtT 0, CopyPositionsAtT 1, CopyPositionsAtT 2,
          ForEachInertialTarget, ForEachInitialPositionsForSolve,
          LaunchMinimizeBackwardEuler [0], ForEachChebyshevUpdate 0 1,
          LaunchMinimizeBackwardEuler [0], ForEachChebyshevUpdate 1 (8 / 7),
          LaunchMinimizeBackwardEuler [0], ForEachChebyshevUpdate 2 (14 / 13),
          CopyVelocitiesAtT 0, CopyVelocitiesAtT 1, CopyVelocitiesAtT 2, ForEachIntegrateVelocity]
   \<and> ChebyshevUpdate 0 1 (Vec3 0 0 0) (Vec3 0 0 0) (Vec3 0 0 (999019 / 1000000))
       = (Vec3 0 0 0, Vec3 0 0 (999019 / 1000000), Vec3 0 0 (999019 / 1000000))
   \<and> X_x (fst (Step ips_previous solve_halfway (1 / 100) 3 1 (1 / 2) free_vertex))
       = ([0], [0], [7993133 / 8000000])
   \<and> mChebyshevPositionsM2 (fst (Step ips_previous solve_halfway (1 / 100) 3 1 (1 / 2) free_vertex))
       = ([0], [0], [0])
   \<and> mChebyshevPositionsM1 (fst (Step ips_previous solve_halfway (1 / 100) 3 1 (1 / 2) free_vertex))
       = ([0], [0], [0])
   \<and> ChebyshevUpdate 2 (14 / 13) (Vec3 0 0 (1999019 / 2000000)) (Vec3 0 0 (3997057 / 4000000))
         (Vec3 0 0 (7993133 / 8000000))
       = (Vec3 0 0 (3997057 / 4000000), Vec3 0 0 (51953893 / 52000000), Vec3 0 0 (51953893 / 52000000))"
proof -
  have 0: "X_x (ChebyshevStep n k omega s) = X_x s
      \<and> mChebyshevPositionsM2 (ChebyshevStep n k omega s) = mChebyshevPositionsM2 s
      \<and> mChebyshevPositionsM1 (ChebyshevStep n k omega s) = mChebyshevPositionsM1 s" for n k omega s
    by (simp add: ChebyshevStep_frame)
  have f1: "X_x (fst (Step ips_previous solve_free (1 / 100) 3 1 (1 / 2) free_vertex))
       = ([0], [0], [999019 / 1000000])"
    by code_simp
  have f2: "mChebyshevPositionsM2 (fst (Step ips_previous solve_free (1 / 100) 3 1 (1 / 2) free_vertex))
       = ([0], [0], [0])"
    by code_simp
  have f3: "mChebyshevPositionsM1 (fst (Step ips_previous solve_free (1 / 100) 3 1 (1 / 2) free_vertex))
       = ([0], [0], [0])"
    by code_simp
  have f4: "mStream (fst (Step ips_previous solve_free (1 / 100) 3 1 (1 / 2) free_vertex))
       = [CopyPositionsAtT 0, CopyPositionsAtT 1, CopyPositionsAtT 2,
          ForEachInertialTarget, ForEachInitialPositionsForSolve,
          LaunchMinimizeBackwardEuler [0], ForEachChebyshevUpdate 0 1,
          LaunchMinimizeBackwardEuler [0], ForEachChebyshevUpdate 1 (8 / 7),
          LaunchMinimizeBackwardEuler [0], ForEachChebyshevUpdate 2 (14 / 13),
          CopyVelocitiesAtT 0, CopyVelocitiesAtT 1, CopyVelocitiesAtT 2, ForEachIntegrateVelocity]"
    by code_simp
  have f5: "ChebyshevUpdate 0 1 (Vec3 0 0 0) (Vec3 0 0 0) (Vec3 0 0 (999019 / 1000000))
       = (Vec3 0 0 0, Vec3 0 0 (999019 / 1000000), Vec3 0 0 (999019 / 1000000))"
    by (simp add: ChebyshevUpdate_def Let_def)
  have h1: "X_x (fst (Step ips_previous solve_halfway (1 / 100) 3 1 (1 / 2) free_vertex))
       = ([0], [0], [7993133 / 8000000])"
    by code_simp
  have h2: "mChebyshevPositionsM2 (fst (Step ips_previous solve_halfway (1 / 100) 3 1 (1 / 2) free_vertex))
       = ([0], [0], [0])"
    by code_simp
  have h3: "mChebyshevPositionsM1 (fst (Step ips_previous solve_halfway (1 / 100) 3 1 (1 / 2) free_vertex))
       = ([0], [0], [0])"
    by code_simp
  have h4: "ChebyshevUpdate 2 (14 / 13) (Vec3 0 0 (1999019 / 2000000)) (Vec3 0 0 (3997057 / 4000000))
         (Vec3 0 0 (7993133 / 8000000))
       = (Vec3 0 0 (3997057 / 4000000), Vec3 0 0 (51953893 / 52000000), Vec3 0 0 (51953893 / 52000000))"
    by (simp add: ChebyshevUpdate_def Let_def)
  show ?thesis using 0 f1 f2 f3 f4 f5 h1 h2 h3 h4 by blast
qed

subsection \<open>When acceleration is enabled\<close>

text \<open>
  C3: the code against the claim.  The flag holds at \<open>rho = 1/2\<close> and not at \<open>rho = 1\<close>,
  and with the flag the Chebyshev \<^verbatim>\<open>for_each\<close> is enqueued in every iteration; but that
  \<^verbatim>\<open>for_each\<close> changes nothing but the stream, so no acceleration is applied: on one free
  vertex under gravity, with a local solve that converges over several sweeps,
  \<open>Step(0.01, 3, 1, 0.5)\<close> leaves every member of the object but the stream exactly as
  \<open>Step(0.01, 3, 1, 1)\<close> does: the position of the plain third sweep,
  \<open>z = 7993133/8000000\<close>, and both history buffers zero.
\<close>

theorem Step_acceleration_without_effect:
  "bUseChebyshevAcceleration (1 / 2) \<and> \<not> bUseChebyshevAcceleration 1
   \<and> (\<forall>n k omega s.
        ChebyshevStep n k omega s = s\<lparr>mStream := mStream s @ [ForEachChebyshevUpdate k omega]\<rparr>)
   \<and> mStream (fst (Step ips_previous solve_halfway (1 / 100) 3 1 (1 / 2) free_vertex))
       = [CopyPositionsAtT 0, CopyPositionsAtT 1, CopyPositionsAtT 2,
          ForEachInertialTarget, ForEachInitialPositionsForSolve,
          LaunchMinimizeBackwardEuler [0], ForEachChebyshevUpdate 0 1,
          LaunchMinimizeBackwardEuler [0], ForEachChebyshevUpdate 1 (8 / 7),
          LaunchMinimizeBackwardEuler [0], ForEachChebyshevUpdate 2 (14 / 13),
          CopyVelocitiesAtT 0, CopyVelocitiesAtT 1, CopyVelocitiesAtT 2, ForEachIntegrateVelocity]
   \<and> (fst (Step ips_previous solve_halfway (1 / 100) 3 1 (1 / 2) free_vertex))\<lparr>mStream := []\<rparr>
       = (fst (Step ips_previous solve_halfway (1 / 100) 3 1 1 free_vertex))\<lparr>mStream := []\<rparr>
   \<and> X_x (fst (Step ips_previous solve_halfway (1 / 100) 3 1 1 free_vertex))
       = ([0], [0], [7993133 / 8000000])
   \<and> mChebyshevPositionsM2 (fst (Step ips_previous solve_halfway (1 / 100) 3 1 1 free_vertex))
       = ([0], [0], [0])
   \<and> mChebyshevPositionsM1 (fst (Step ips_previous solve_halfway (1 / 100) 3 1 1 free_vertex))
       = ([0], [0], [0])"
proof -
  have 1: "bUseChebyshevAcceleration (1 / 2)" "\<not> bUseChebyshevAcceleration 1"
    by (simp_all add: bUseChebyshevAcceleration_def)
  have 2: "ChebyshevStep n k omega s = s\<lparr>mStream := mStream s @ [ForEachChebyshevUpdate k omega]\<rparr>"
    for n k omega s
    by (rule ChebyshevStep_frame)
  have 3: "mStream (fst (Step ips_previous solve_halfway (1 / 100) 3 1 (1 / 2) free_vertex))
       = [CopyPositionsAtT 0, CopyPositionsAtT 1, CopyPositionsAtT 2,
          ForEachInertialTarget, ForEachInitialPositionsForSolve,
          LaunchMinimizeBackwardEuler [0], ForEachChebyshevUpdate 0 1,
          LaunchMinimizeBackwardEuler [0], ForEachChebyshevUpdate 1 (8 / 7),
          LaunchMinimizeBackwardEuler [0], ForEachChebyshevUpdate 2 (14 / 13),
          CopyVelocitiesAtT 0, CopyVelocitiesAtT 1, CopyVelocitiesAtT 2, ForEachIntegrateVelocity]"
    by code_simp
  have 4: "(fst (Step ips_previous solve_halfway (1 / 100) 3 1 (1 / 2) free_vertex))\<lparr>mStream := []\<rparr>
       = (fst (Step ips_previous solve_halfway (1 / 100) 3 1 1 free_vertex))\<lparr>mStream := []\<rparr>"
    by code_simp
  have 5: "X_x (fst (Step ips_previous solve_halfway (1 / 100) 3 1 1 free_vertex))
       = ([0], [0], [7993133 / 8000000])"
    by code_simp
  have 6: "mChebyshevPositionsM2 (fst (Step ips_previous solve_halfway (1 / 100) 3 1 1 free_vertex))
       = ([0], [0], [0])"
    by code_simp
  have 7: "mChebyshevPositionsM1 (fst (Step ips_previous solve_halfway (1 / 100) 3 1 1 free_vertex))
       = ([0], [0], [0])"
    by code_simp
  show ?thesis using 1 2 3 4 5 6 7 by blast
qed

subsection \<open>The inertial target\<close>

text \<open>
  C4.  In sub-step \<open>j\<close> of \<open>Step(dt, iterations, substeps, rho)\<close>, on an object whose
  buffers have the sizes declared at construction, the inertial target of every vertex
  \<open>i\<close> is \<open>xt_i + sdt * v_i + sdt^2 * aext_i\<close> with \<open>sdt = dt / substeps\<close>, where \<open>xt\<close>,
  \<open>v\<close> and \<open>aext\<close> are the positions, velocities and external accelerations at the
  start of the sub-step; \<open>xt\<close> is what the sub-step stores in \<open>mPositionsAtT\<close>; and on the
  stream the inertial targets follow the copy of the positions directly, ahead of
  everything else the sub-step enqueues, the launches of the iterations among it.
\<close>

theorem Step_inertial_target:
  assumes "SizedAsConstructed s" and "j < nat substeps" and "i < NumberOfPoints s"
  shows "FromBuffers (mInertialTargetPositions
            (AfterSubsteps ips solve dt iterations substeps rho (Suc j) s)) i
         = FromBuffers (X_x (AfterSubsteps ips solve dt iterations substeps rho j s)) i
           + smul (dt / real_of_int substeps)
               (FromBuffers (mVelocities (AfterSubsteps ips solve dt iterations substeps rho j s)) i)
           + smul ((dt / real_of_int substeps) * (dt / real_of_int substeps))
               (FromBuffers (mExternalAcceleration (AfterSubsteps ips solve dt iterations substeps rho j s)) i)
       \<and> mPositionsAtT (AfterSubsteps ips solve dt iterations substeps rho (Suc j) s)
           = X_x (AfterSubsteps ips solve dt iterations substeps rho j s)
       \<and> (\<exists>ops. mStream (AfterSubsteps ips solve dt iterations substeps rho (Suc j) s)
             = mStream (AfterSubsteps ips solve dt iterations substeps rho j s)
               @ [CopyPositionsAtT 0, CopyPositionsAtT 1, CopyPositionsAtT 2, ForEachInertialTarget]
               @ ops)
       \<and> fst (Step ips solve dt iterations substeps rho s)
           = AfterSubsteps ips solve dt iterations substeps rho (nat substeps) s"
proof -
  let ?sj = "AfterSubsteps ips solve dt iterations substeps rho j s"
  let ?sdt = "dt / real_of_int substeps"
  have sz: "SizedAsConstructed ?sj" and n: "NumberOfPoints ?sj = NumberOfPoints s"
    using AfterSubsteps_inv [OF assms(1)] by simp_all
  note b = Sized_buffers [OF sz]
  obtain x where f: "Substep ips solve (NumberOfPoints ?sj) ?sdt (?sdt * ?sdt)
             (bUseChebyshevAcceleration rho) iterations rho ?sj
           = ?sj\<lparr>mPositionsAtT := X_x ?sj,
               mInertialTargetPositions :=
                 for_each_store (NumberOfPoints ?sj)
                   (\<lambda>i. InertialTarget (FromBuffers (X_x ?sj) i) (FromBuffers (mVelocities ?sj) i)
                           (FromBuffers (mExternalAcceleration ?sj) i) ?sdt (?sdt * ?sdt))
                   (mInertialTargetPositions ?sj),
               X_x := x,
               mVelocitiesAtT := mVelocities ?sj,
               mVelocities :=
                 for_each_store (NumberOfPoints ?sj)
                   (\<lambda>i. IntegrateVelocity (FromBuffers (X_x ?sj) i) (FromBuffers x i) ?sdt)
                   (mVelocities ?sj),
               mStream := mStream ?sj @ SubstepOps (bUseChebyshevAcceleration rho) (mPartitions ?sj)
                   (rho * rho) (nat iterations)\<rparr>"
    using Substep_frame [OF b(1) b(2) b(3) b(4)] by blast
  have e: "AfterSubsteps ips solve dt iterations substeps rho (Suc j) s
      = Substep ips solve (NumberOfPoints ?sj) ?sdt (?sdt * ?sdt)
             (bUseChebyshevAcceleration rho) iterations rho ?sj"
    unfolding AfterSubsteps_Suc n ..
  have i: "i < NumberOfPoints ?sj" using assms(3) n by simp
  have 1: "FromBuffers (mInertialTargetPositions
            (AfterSubsteps ips solve dt iterations substeps rho (Suc j) s)) i
         = InertialTarget (FromBuffers (X_x ?sj) i) (FromBuffers (mVelocities ?sj) i)
                           (FromBuffers (mExternalAcceleration ?sj) i) ?sdt (?sdt * ?sdt)"
    unfolding e f using for_each_store_nth [OF b(5) order_refl i] by simp
  have 2: "mPositionsAtT (AfterSubsteps ips solve dt iterations substeps rho (Suc j) s) = X_x ?sj"
    unfolding e f by simp
  have 3: "mStream (AfterSubsteps ips solve dt iterations substeps rho (Suc j) s)
             = mStream ?sj
               @ [CopyPositionsAtT 0, CopyPositionsAtT 1, CopyPositionsAtT 2, ForEachInertialTarget]
               @ (ForEachInitialPositionsForSolve
                  # concat (map (IterationOps (bUseChebyshevAcceleration rho) (mPartitions ?sj) (rho * rho))
                       [0..<nat iterations])
                  @ [CopyVelocitiesAtT 0, CopyVelocitiesAtT 1, CopyVelocitiesAtT 2, ForEachIntegrateVelocity])"
    unfolding e f by (simp add: SubstepOps_def)
  have 4: "fst (Step ips solve dt iterations substeps rho s)
           = AfterSubsteps ips solve dt iterations substeps rho (nat substeps) s"
    by (simp add: Step_def)
  show ?thesis using 1 2 3 4 unfolding InertialTarget_def by blast
qed

theorem Step_inertial_target_witness:
  "SizedAsConstructed free_vertex \<and> (0::nat) < nat 1 \<and> (0::nat) < NumberOfPoints free_vertex
   \<and> FromBuffers (mInertialTargetPositions
        (AfterSubsteps ips_previous solve_free (1 / 100) 1 1 0 (Suc 0) free_vertex)) 0
      = Vec3 0 0 (1 - 981 / 1000000)"
proof -
  have a: "SizedAsConstructed free_vertex" by (rule free_vertex_sized)
  have b: "(0::nat) < nat 1" by simp
  have c: "(0::nat) < NumberOfPoints free_vertex" by (simp add: free_vertex_points)
  have z: "AfterSubsteps ips_previous solve_free (1 / 100) 1 1 0 0 free_vertex = free_vertex"
    by (simp add: AfterSubsteps_def)
  from Step_inertial_target [OF a b c, of ips_previous solve_free "1 / 100" 1 0]
  have "FromBuffers (mInertialTargetPositions
        (AfterSubsteps ips_previous solve_free (1 / 100) 1 1 0 (Suc 0) free_vertex)) 0
      = Vec3 0 0 (1 - 981 / 1000000)"
    unfolding z by (simp add: free_vertex_fields)
  then show ?thesis using a b c by blast
qed

subsection \<open>The velocity update\<close>

text \<open>
  C5.  At the end of sub-step \<open>j\<close> of \<open>Step(dt, iterations, substeps, rho)\<close>, with \<open>dt\<close> not
  zero and the buffers sized as at construction, the velocity of every vertex \<open>i\<close> is
  \<open>(x_new_i - xt_i) / sdt\<close> with \<open>sdt = dt / substeps\<close>, where \<open>x_new\<close> is the position
  buffer the sub-step ends with and \<open>xt = mPositionsAtT\<close> is the position buffer the
  sub-step started with; the velocities the sub-step started with are kept in
  \<open>mVelocitiesAtT\<close>; the copy of the velocities and the velocity \<^verbatim>\<open>for_each\<close> are the last
  operations of the sub-step.  The formula has no damping term.
\<close>

theorem Step_velocity_update:
  assumes "SizedAsConstructed s" and "j < nat substeps" and "i < NumberOfPoints s" and "dt \<noteq> 0"
  shows "FromBuffers (mVelocities (AfterSubsteps ips solve dt iterations substeps rho (Suc j) s)) i
         = sdiv (FromBuffers (X_x (AfterSubsteps ips solve dt iterations substeps rho (Suc j) s)) i
                 - FromBuffers (mPositionsAtT (AfterSubsteps ips solve dt iterations substeps rho (Suc j) s)) i)
             (dt / real_of_int substeps)
       \<and> dt / real_of_int substeps \<noteq> 0
       \<and> mPositionsAtT (AfterSubsteps ips solve dt iterations substeps rho (Suc j) s)
           = X_x (AfterSubsteps ips solve dt iterations substeps rho j s)
       \<and> mVelocitiesAtT (AfterSubsteps ips solve dt iterations substeps rho (Suc j) s)
           = mVelocities (AfterSubsteps ips solve dt iterations substeps rho j s)
       \<and> (\<exists>ops. mStream (AfterSubsteps ips solve dt iterations substeps rho (Suc j) s)
             = mStream (AfterSubsteps ips solve dt iterations substeps rho j s) @ ops
               @ [CopyVelocitiesAtT 0, CopyVelocitiesAtT 1, CopyVelocitiesAtT 2, ForEachIntegrateVelocity])
       \<and> fst (Step ips solve dt iterations substeps rho s)
           = AfterSubsteps ips solve dt iterations substeps rho (nat substeps) s"
proof -
  let ?sj = "AfterSubsteps ips solve dt iterations substeps rho j s"
  let ?sdt = "dt / real_of_int substeps"
  have sz: "SizedAsConstructed ?sj" and n: "NumberOfPoints ?sj = NumberOfPoints s"
    using AfterSubsteps_inv [OF assms(1)] by simp_all
  note b = Sized_buffers [OF sz]
  obtain x where f: "Substep ips solve (NumberOfPoints ?sj) ?sdt (?sdt * ?sdt)
             (bUseChebyshevAcceleration rho) iterations rho ?sj
           = ?sj\<lparr>mPositionsAtT := X_x ?sj,
               mInertialTargetPositions :=
                 for_each_store (NumberOfPoints ?sj)
                   (\<lambda>i. InertialTarget (FromBuffers (X_x ?sj) i) (FromBuffers (mVelocities ?sj) i)
                           (FromBuffers (mExternalAcceleration ?sj) i) ?sdt (?sdt * ?sdt))
                   (mInertialTargetPositions ?sj),
               X_x := x,
               mVelocitiesAtT := mVelocities ?sj,
               mVelocities :=
                 for_each_store (NumberOfPoints ?sj)
                   (\<lambda>i. IntegrateVelocity (FromBuffers (X_x ?sj) i) (FromBuffers x i) ?sdt)
                   (mVelocities ?sj),
               mStream := mStream ?sj @ SubstepOps (bUseChebyshevAcceleration rho) (mPartitions ?sj)
                   (rho * rho) (nat iterations)\<rparr>"
    using Substep_frame [OF b(1) b(2) b(3) b(4)] by blast
  have e: "AfterSubsteps ips solve dt iterations substeps rho (Suc j) s
      = Substep ips solve (NumberOfPoints ?sj) ?sdt (?sdt * ?sdt)
             (bUseChebyshevAcceleration rho) iterations rho ?sj"
    unfolding AfterSubsteps_Suc n ..
  have i: "i < NumberOfPoints ?sj" using assms(3) n by simp
  have 1: "FromBuffers (mVelocities (AfterSubsteps ips solve dt iterations substeps rho (Suc j) s)) i
         = IntegrateVelocity
             (FromBuffers (mPositionsAtT (AfterSubsteps ips solve dt iterations substeps rho (Suc j) s)) i)
             (FromBuffers (X_x (AfterSubsteps ips solve dt iterations substeps rho (Suc j) s)) i) ?sdt"
    unfolding e f using for_each_store_nth [OF b(3) order_refl i] by simp
  have 0: "?sdt \<noteq> 0" using assms(2,4) by simp
  have 2: "mPositionsAtT (AfterSubsteps ips solve dt iterations substeps rho (Suc j) s) = X_x ?sj"
    unfolding e f by simp
  have 3: "mVelocitiesAtT (AfterSubsteps ips solve dt iterations substeps rho (Suc j) s) = mVelocities ?sj"
    unfolding e f by simp
  have 4: "mStream (AfterSubsteps ips solve dt iterations substeps rho (Suc j) s)
             = mStream ?sj
               @ ([CopyPositionsAtT 0, CopyPositionsAtT 1, CopyPositionsAtT 2,
                   ForEachInertialTarget, ForEachInitialPositionsForSolve]
                  @ concat (map (IterationOps (bUseChebyshevAcceleration rho) (mPartitions ?sj) (rho * rho))
                       [0..<nat iterations]))
               @ [CopyVelocitiesAtT 0, CopyVelocitiesAtT 1, CopyVelocitiesAtT 2, ForEachIntegrateVelocity]"
    unfolding e f by (simp add: SubstepOps_def)
  have 5: "fst (Step ips solve dt iterations substeps rho s)
           = AfterSubsteps ips solve dt iterations substeps rho (nat substeps) s"
    by (simp add: Step_def)
  show ?thesis using 0 1 2 3 4 5 unfolding IntegrateVelocity_def by blast
qed

theorem Step_velocity_update_witness:
  "SizedAsConstructed free_vertex \<and> (0::nat) < nat 1 \<and> (0::nat) < NumberOfPoints free_vertex
   \<and> (1 / 100 :: real) \<noteq> 0
   \<and> FromBuffers (mVelocities
        (AfterSubsteps ips_previous solve_free (1 / 100) 1 1 0 (Suc 0) free_vertex)) 0
      = Vec3 0 0 (- 981 / 10000)
   \<and> mPositionsAtT (AfterSubsteps ips_previous solve_free (1 / 100) 1 1 0 (Suc 0) free_vertex)
      = X_x free_vertex"
proof -
  have a: "SizedAsConstructed free_vertex" by (rule free_vertex_sized)
  have b: "(0::nat) < nat 1" by simp
  have c: "(0::nat) < NumberOfPoints free_vertex" by (simp add: free_vertex_points)
  have d: "(1 / 100 :: real) \<noteq> 0" by simp
  have z: "AfterSubsteps ips_previous solve_free (1 / 100) 1 1 0 0 free_vertex = free_vertex"
    by (simp add: AfterSubsteps_def)
  have x: "FromBuffers (X_x (AfterSubsteps ips_previous solve_free (1 / 100) 1 1 0 (Suc 0) free_vertex)) 0
      = Vec3 0 0 (999019 / 1000000)"
    by code_simp
  have xt: "FromBuffers (mPositionsAtT (AfterSubsteps ips_previous solve_free (1 / 100) 1 1 0 (Suc 0) free_vertex)) 0
      = Vec3 0 0 1"
    by code_simp
  note t = Step_velocity_update [OF a b c d, of ips_previous solve_free 1 0]
  have v: "FromBuffers (mVelocities
        (AfterSubsteps ips_previous solve_free (1 / 100) 1 1 0 (Suc 0) free_vertex)) 0
      = Vec3 0 0 (- 981 / 10000)"
    using t [THEN conjunct1] unfolding x xt by simp
  have p: "mPositionsAtT (AfterSubsteps ips_previous solve_free (1 / 100) 1 1 0 (Suc 0) free_vertex)
      = X_x free_vertex"
    using t [THEN conjunct2, THEN conjunct2, THEN conjunct1] unfolding z .
  show ?thesis using a b c d v p by blast
qed

subsection \<open>Validation in Step\<close>




subsection \<open>The adjacency setter\<close>

text \<open>
  C7.  \<^verbatim>\<open>SetVertexTetrahedronAdjacencyList(GVTp, GVTn, GVTilocal)\<close> throws the
  invalid-argument whose message names \<open>neighbours=\<close> the size of \<open>GVTn\<close> and \<open>ilocal=\<close>
  the size of \<open>GVTilocal\<close> exactly when the two sizes differ, provided the messages of
  \<^verbatim>\<open>ToBuffer\<close> are other texts; whenever the call throws, this way or from \<^verbatim>\<open>ToBuffer\<close>
  on a prefix array of the wrong size, the object is as it was; and when the sizes
  agree and the prefix array fits, the three buffers hold the three inputs.
\<close>

theorem SetVertexTetrahedronAdjacencyList_validates:
  assumes "\<forall>expected actual. what expected actual \<noteq> adjacency_what (length GVTn) (length GVTilocal)"
  shows "(snd (SetVertexTetrahedronAdjacencyList what GVTp GVTn GVTilocal s)
            = Some (invalid_argument (adjacency_what (length GVTn) (length GVTilocal)))
          \<longleftrightarrow> length GVTn \<noteq> length GVTilocal)
       \<and> adjacency_what (length GVTn) (length GVTilocal)
           = ''Expected vertex-tetrahedron adjacency graph'' @ [CHR 0x27]
             @ ''s neighbour array and data (ilocal) array to have the same size, but got neighbours=''
             @ to_string (length GVTn) @ '', ilocal='' @ to_string (length GVTilocal) @ '' '' @ [CHR 0x0A]
       \<and> (snd (SetVertexTetrahedronAdjacencyList what GVTp GVTn GVTilocal s) \<noteq> None
            \<longrightarrow> fst (SetVertexTetrahedronAdjacencyList what GVTp GVTn GVTilocal s) = s)
       \<and> (length GVTn = length GVTilocal \<and> length GVTp = length (mVertexTetrahedronPrefix s)
            \<longrightarrow> SetVertexTetrahedronAdjacencyList what GVTp GVTn GVTilocal s
                  = (s\<lparr>mVertexTetrahedronPrefix := GVTp, mVertexTetrahedronNeighbours := GVTn,
                       mVertexTetrahedronLocalVertexIndices := GVTilocal\<rparr>, None))"
proof (intro conjI)
  show "snd (SetVertexTetrahedronAdjacencyList what GVTp GVTn GVTilocal s)
            = Some (invalid_argument (adjacency_what (length GVTn) (length GVTilocal)))
          \<longleftrightarrow> length GVTn \<noteq> length GVTilocal"
  proof (cases "length GVTn \<noteq> length GVTilocal")
    case True
    then show ?thesis by (simp add: SetVertexTetrahedronAdjacencyList_cases)
  next
    case False
    have "what (length (mVertexTetrahedronPrefix s)) (length GVTp)
            \<noteq> adjacency_what (length GVTn) (length GVTilocal)"
      using assms by blast
    then show ?thesis using False
      by (auto simp: SetVertexTetrahedronAdjacencyList_cases)
  qed
  show "adjacency_what (length GVTn) (length GVTilocal)
           = ''Expected vertex-tetrahedron adjacency graph'' @ [CHR 0x27]
             @ ''s neighbour array and data (ilocal) array to have the same size, but got neighbours=''
             @ to_string (length GVTn) @ '', ilocal='' @ to_string (length GVTilocal) @ '' '' @ [CHR 0x0A]"
    by (rule adjacency_what_def)
  show "snd (SetVertexTetrahedronAdjacencyList what GVTp GVTn GVTilocal s) \<noteq> None
            \<longrightarrow> fst (SetVertexTetrahedronAdjacencyList what GVTp GVTn GVTilocal s) = s"
    by (simp add: SetVertexTetrahedronAdjacencyList_cases)
  show "length GVTn = length GVTilocal \<and> length GVTp = length (mVertexTetrahedronPrefix s)
            \<longrightarrow> SetVertexTetrahedronAdjacencyList what GVTp GVTn GVTilocal s
                  = (s\<lparr>mVertexTetrahedronPrefix := GVTp, mVertexTetrahedronNeighbours := GVTn,
                       mVertexTetrahedronLocalVertexIndices := GVTilocal\<rparr>, None)"
    by (simp add: SetVertexTetrahedronAdjacencyList_cases)
qed

theorem SetVertexTetrahedronAdjacencyList_validates_witness:
  "(\<forall>expected actual. example_what expected actual \<noteq> adjacency_what (length [0, 0, 0 :: int]) (length [0, 1 :: int]))
   \<and> SetVertexTetrahedronAdjacencyList example_what [0, 1, 2, 3, 3] [0, 0, 0] [0, 1] one_tetrahedron
       = (one_tetrahedron,
          Some (invalid_argument (''Expected vertex-tetrahedron adjacency graph'' @ [CHR 0x27]
             @ ''s neighbour array and data (ilocal) array to have the same size, but got neighbours=3, ilocal=2 ''
             @ [CHR 0x0A])))
   \<and> snd (SetVertexTetrahedronAdjacencyList example_what [0, 1, 2, 3] [0, 0, 0] [0, 1, 2] one_tetrahedron)
       = Some (invalid_argument ''Expected input of size 5, but got 4'')
   \<and> fst (SetVertexTetrahedronAdjacencyList example_what [0, 1, 2, 3] [0, 0, 0] [0, 1, 2] one_tetrahedron)
       = one_tetrahedron
   \<and> snd (SetVertexTetrahedronAdjacencyList example_what [0, 1, 2, 3, 3] [0, 0, 0] [0, 1, 2] one_tetrahedron)
       = None"
proof -
  have a: "\<forall>expected actual. example_what expected actual
             \<noteq> adjacency_what (length [0, 0, 0 :: int]) (length [0, 1 :: int])"
    by (simp add: example_what_differs)
  have a': "\<forall>expected actual. example_what expected actual
             \<noteq> adjacency_what (length [0, 0, 0 :: int]) (length [0, 1, 2 :: int])"
    by (simp add: example_what_differs)
  note t = SetVertexTetrahedronAdjacencyList_validates [OF a, of "[0, 1, 2, 3, 3]" one_tetrahedron]
  note u = SetVertexTetrahedronAdjacencyList_validates [OF a', of "[0, 1, 2, 3]" one_tetrahedron]
  note v = SetVertexTetrahedronAdjacencyList_validates [OF a', of "[0, 1, 2, 3, 3]" one_tetrahedron]
  have ne: "length [0, 0, 0 :: int] \<noteq> length [0, 1 :: int]" by simp
  have msg: "adjacency_what (length [0, 0, 0 :: int]) (length [0, 1 :: int])
      = ''Expected vertex-tetrahedron adjacency graph'' @ [CHR 0x27]
             @ ''s neighbour array and data (ilocal) array to have the same size, but got neighbours=3, ilocal=2 ''
             @ [CHR 0x0A]"
    by code_simp
  have s1: "snd (SetVertexTetrahedronAdjacencyList example_what [0, 1, 2, 3, 3] [0, 0, 0] [0, 1] one_tetrahedron)
      = Some (invalid_argument (adjacency_what (length [0, 0, 0 :: int]) (length [0, 1 :: int])))"
    using t [THEN conjunct1] ne by blast
  then have f1: "fst (SetVertexTetrahedronAdjacencyList example_what [0, 1, 2, 3, 3] [0, 0, 0] [0, 1] one_tetrahedron)
      = one_tetrahedron"
    using t [THEN conjunct2, THEN conjunct2, THEN conjunct1] by simp
  have 1: "SetVertexTetrahedronAdjacencyList example_what [0, 1, 2, 3, 3] [0, 0, 0] [0, 1] one_tetrahedron
       = (one_tetrahedron,
          Some (invalid_argument (''Expected vertex-tetrahedron adjacency graph'' @ [CHR 0x27]
             @ ''s neighbour array and data (ilocal) array to have the same size, but got neighbours=3, ilocal=2 ''
             @ [CHR 0x0A])))"
    using s1 f1 unfolding msg by (simp add: prod_eq_iff)
  have 2: "snd (SetVertexTetrahedronAdjacencyList example_what [0, 1, 2, 3] [0, 0, 0] [0, 1, 2] one_tetrahedron)
       = Some (invalid_argument ''Expected input of size 5, but got 4'')"
    by code_simp
  then have 3: "fst (SetVertexTetrahedronAdjacencyList example_what [0, 1, 2, 3] [0, 0, 0] [0, 1, 2] one_tetrahedron)
       = one_tetrahedron"
    using u [THEN conjunct2, THEN conjunct2, THEN conjunct1] by simp
  have p: "length (mVertexTetrahedronPrefix one_tetrahedron) = 5" by code_simp
  have 4: "snd (SetVertexTetrahedronAdjacencyList example_what [0, 1, 2, 3, 3] [0, 0, 0] [0, 1, 2] one_tetrahedron)
       = None"
    using v [THEN conjunct2, THEN conjunct2, THEN conjunct2] p by simp
  show ?thesis using a 1 2 3 4 by blast
qed

subsection \<open>The partition setter\<close>

text \<open>
  C8, as amended.  \<^verbatim>\<open>SetVertexPartitions\<close> validates nothing, in any build: whatever
  groups it is given, it stores them in \<open>mPartitions\<close> unchanged and in order, changes
  nothing else and does not throw.
\<close>

theorem SetVertexPartitions_stores_unchecked:
  "SetVertexPartitions partitions s = (s\<lparr>mPartitions := partitions\<rparr>, None)
   \<and> mPartitions (fst (SetVertexPartitions partitions s)) = partitions
   \<and> snd (SetVertexPartitions partitions s) = None"
  by (simp add: SetVertexPartitions_eq)

text \<open>
  C8 as stated fails: on one tetrahedron, whose four vertices all share it, the
  group \<open>[0, 1]\<close> violates the partition invariant, and \<^verbatim>\<open>SetVertexPartitions\<close> stores it
  without an error.
\<close>

theorem SetVertexPartitions_accepts_violation:
  "\<not> PartitionInvariant one_tetrahedron [[0, 1]]
   \<and> ShareIncidentElement one_tetrahedron 0 1
   \<and> SetVertexPartitions [[0, 1]] one_tetrahedron = (one_tetrahedron\<lparr>mPartitions := [[0, 1]]\<rparr>, None)"
proof -
  have 1: "\<not> PartitionInvariant one_tetrahedron [[0, 1]]" by code_simp
  have 2: "ShareIncidentElement one_tetrahedron 0 1" by code_simp
  show ?thesis using 1 2 by (simp add: SetVertexPartitions_eq)
qed

subsection \<open>The state after construction\<close>

text \<open>
  C9.  After construction from the positions \<open>Xin\<close>, every vertex \<open>i\<close> has velocity,
  previous velocity and external acceleration \<open>(0, 0, 0)\<close>, mass \<open>1000\<close> and the position
  \<open>Xin ! i\<close>; there are as many points and masses as columns of \<open>Xin\<close>, all buffers
  have the sizes of the member initialisers; the numerical zero of the Hessian's
  determinant is \<open>10^-10\<close>, the Rayleigh damping \<open>0\<close>, the collision penalty \<open>1000\<close>
  and the cap on colliding triangles per vertex \<open>8\<close>.
\<close>

theorem VbdImpl_ctor_defaults:
  "(\<forall>i < length Xin.
       FromBuffers (mVelocities (VbdImpl_ctor Xin Vin Fin Tin)) i = Vec3 0 0 0
     \<and> FromBuffers (mVelocitiesAtT (VbdImpl_ctor Xin Vin Fin Tin)) i = Vec3 0 0 0
     \<and> FromBuffers (mExternalAcceleration (VbdImpl_ctor Xin Vin Fin Tin)) i = Vec3 0 0 0
     \<and> mMass (VbdImpl_ctor Xin Vin Fin Tin) ! i = 1000
     \<and> FromBuffers (X_x (VbdImpl_ctor Xin Vin Fin Tin)) i = Xin ! i)
   \<and> NumberOfPoints (VbdImpl_ctor Xin Vin Fin Tin) = length Xin
   \<and> length (mMass (VbdImpl_ctor Xin Vin Fin Tin)) = length Xin
   \<and> SizedAsConstructed (VbdImpl_ctor Xin Vin Fin Tin)
   \<and> mDetHZero (VbdImpl_ctor Xin Vin Fin Tin) = 1 / 10 ^ 10
   \<and> mRayleighDamping (VbdImpl_ctor Xin Vin Fin Tin) = 0
   \<and> mCollisionPenalty (VbdImpl_ctor Xin Vin Fin Tin) = 1000
   \<and> mMaxCollidingTrianglesPerVertex (VbdImpl_ctor Xin Vin Fin Tin) = 8"
proof -
  have v: "FromBuffers (mVelocities (VbdImpl_ctor Xin Vin Fin Tin)) i = Vec3 0 0 0
     \<and> FromBuffers (mVelocitiesAtT (VbdImpl_ctor Xin Vin Fin Tin)) i = Vec3 0 0 0
     \<and> FromBuffers (mExternalAcceleration (VbdImpl_ctor Xin Vin Fin Tin)) i = Vec3 0 0 0
     \<and> mMass (VbdImpl_ctor Xin Vin Fin Tin) ! i = 1000
     \<and> FromBuffers (X_x (VbdImpl_ctor Xin Vin Fin Tin)) i = Xin ! i"
    if "i < length Xin" for i
    using that by (simp add: VbdImpl_ctor_fields PointsImpl_nth)
  have n: "NumberOfPoints (VbdImpl_ctor Xin Vin Fin Tin) = length Xin"
    by (simp add: NumberOfPoints_def VbdImpl_ctor_fields PointsImpl_def)
  have m: "length (mMass (VbdImpl_ctor Xin Vin Fin Tin)) = length Xin"
    by (simp add: VbdImpl_ctor_fields)
  show ?thesis
    using v n m VbdImpl_ctor_sized [of Xin Vin Fin Tin] VbdImpl_ctor_fields(7-10) [of Xin Vin Fin Tin]
    by simp
qed

theorem VbdImpl_ctor_defaults_witness:
  "(1::nat) < length [Vec3 0 0 0, Vec3 1 2 3]
   \<and> FromBuffers (mVelocities (VbdImpl_ctor [Vec3 0 0 0, Vec3 1 2 3] [[0], [1]] [] [])) 1 = Vec3 0 0 0
   \<and> mMass (VbdImpl_ctor [Vec3 0 0 0, Vec3 1 2 3] [[0], [1]] [] []) ! 1 = 1000
   \<and> FromBuffers (X_x (VbdImpl_ctor [Vec3 0 0 0, Vec3 1 2 3] [[0], [1]] [] [])) 1 = Vec3 1 2 3"
proof -
  have a: "(1::nat) < length [Vec3 0 0 0, Vec3 1 2 3]" by simp
  note t = VbdImpl_ctor_defaults [of "[Vec3 0 0 0, Vec3 1 2 3]" "[[0], [1]]" "[]" "[]",
      THEN conjunct1, rule_format, OF a]
  have x: "[Vec3 0 0 0, Vec3 1 2 3] ! 1 = Vec3 1 2 3" by simp
  show ?thesis using a t unfolding x by blast
qed

subsection \<open>Lame coefficients\<close>

text \<open>
  C10.  For a Young's modulus \<open>Y\<close> and a Poisson ratio \<open>nu\<close> other than \<open>-1\<close> and \<open>1/2\<close>
  (where the denominators vanish), \<open>LameCoefficients Y nu\<close> is the pair
  \<open>(Y / (2 (1 + nu)), Y nu / ((1 + nu) (1 - 2 nu)))\<close>, and the vectorised overload on the
  constant vectors of \<open>n\<close> coefficients \<open>Y\<close> and \<open>nu\<close> returns the two scalar results, each
  replicated \<open>n\<close> times.
\<close>

theorem LameCoefficients_formula:
  assumes "nu \<noteq> - 1" and "nu \<noteq> 1 / 2"
  shows "LameCoefficients Y nu = (Y / (2 * (1 + nu)), Y * nu / ((1 + nu) * (1 - 2 * nu)))
       \<and> (1 + nu) \<noteq> 0 \<and> (1 - 2 * nu) \<noteq> 0
       \<and> LameCoefficientsV (Constant n Y) (Constant n nu)
           = (Constant n (fst (LameCoefficients Y nu)), Constant n (snd (LameCoefficients Y nu)))
       \<and> length (fst (LameCoefficientsV (Constant n Y) (Constant n nu))) = n
       \<and> length (snd (LameCoefficientsV (Constant n Y) (Constant n nu))) = n"
proof -
  have d1: "1 + nu \<noteq> 0" using assms(1) by linarith
  have d2: "1 - 2 * nu \<noteq> 0" using assms(2) by (simp add: field_simps)
  have s: "LameCoefficients Y nu = (Y / (2 * (1 + nu)), Y * nu / ((1 + nu) * (1 - 2 * nu)))"
    by (simp add: LameCoefficients_def Let_def)
  have v: "LameCoefficientsV (Constant n Y) (Constant n nu)
           = (Constant n (fst (LameCoefficients Y nu)), Constant n (snd (LameCoefficients Y nu)))"
    by (simp add: LameCoefficientsV_def Constant_def zip_replicate_same)
  show ?thesis using d1 d2 s v by (simp add: Constant_def)
qed

theorem LameCoefficients_formula_witness:
  "(45 / 100 :: real) \<noteq> - 1 \<and> (45 / 100 :: real) \<noteq> 1 / 2
   \<and> LameCoefficients 1000000 (45 / 100) = (10000000 / 29, 90000000 / 29)
   \<and> LameCoefficientsV (Constant 5 1000000) (Constant 5 (45 / 100))
       = (Constant 5 (10000000 / 29), Constant 5 (90000000 / 29))
   \<and> length (fst (LameCoefficientsV (Constant 5 1000000) (Constant 5 (45 / 100)))) = 5
   \<and> length (snd (LameCoefficientsV (Constant 5 1000000) (Constant 5 (45 / 100)))) = 5"
proof -
  have a: "(45 / 100 :: real) \<noteq> - 1" by simp
  have b: "(45 / 100 :: real) \<noteq> 1 / 2" by simp
  note t = LameCoefficients_formula [OF a b, of 1000000 5]
  have c: "LameCoefficients 1000000 (45 / 100) = (10000000 / 29, 90000000 / 29)"
    using t by simp
  from t have v: "LameCoefficientsV (Constant 5 1000000) (Constant 5 (45 / 100))
       = (Constant 5 (10000000 / 29), Constant 5 (90000000 / 29))"
    unfolding c fst_conv snd_conv by blast
  from t have l1: "length (fst (LameCoefficientsV (Constant 5 1000000) (Constant 5 (45 / 100)))) = 5"
    by blast
  from t have l2: "length (snd (LameCoefficientsV (Constant 5 1000000) (Constant 5 (45 / 100)))) = 5"
    by blast
  show ?thesis using a b c v l1 l2 by blast
qed

end
